theory Spec2Isabelle
  imports Main "HOL-Library.Word"
begin

section \<open>JavaScript values, objects and the store\<close>

text \<open>
  The appender of \<^verbatim>\<open>lib/index.js\<close> handles untyped JavaScript values: whatever was
  logged, whatever the configuration holds. A value is a primitive, a reference to an
  object in the store, a built-in function, or the object \<^verbatim>\<open>Object.prototype\<close>.

  A finite number other than \<^verbatim>\<open>-0\<close> is given by its decimal: \<open>JNum i\<close> is the integer
  \<open>i\<close>, and \<open>JDec m e\<close> is \<open>m / 10 ^ e\<close>, with \<open>0 < e\<close> and \<open>m\<close> no multiple of ten, for a
  number that is no integer. The program computes with numbers once, where it divides
  the clock by 1000. Strings are byte strings.

  \<open>JFun f\<close> is a built-in function of the name \<open>f\<close>: the members of \<^verbatim>\<open>Object.prototype\<close>
  are such, and a property read can return one. The program calls none.
\<close>

type_synonym addr = nat

datatype jsval = JUndefined | JNull | JBool bool | JNum int | JDec int nat
  | JNaN | JInfinity | JNegInfinity | JNegZero
  | JStr string | JRef addr | JFun string | JObjectPrototype

text \<open>
  An object of the store is a plain object: its prototype is \<^verbatim>\<open>Object.prototype\<close>, and it
  is given by the list of its own enumerable properties in the order of \<^verbatim>\<open>Object.keys\<close>,
  which for names that are no array indices is the order of insertion. Arrays other than
  the \<^verbatim>\<open>data\<close> of an event are not part of this picture.
\<close>

type_synonym obj = "(string \<times> jsval) list"

record heap =
  cells :: "addr \<Rightarrow> obj"
  fresh :: addr

datatype error = TypeError | ERR_SOCKET_DGRAM_NOT_RUNNING

text \<open>Truthiness, as tested by \<^verbatim>\<open>if (v)\<close>, \<^verbatim>\<open>!v\<close> and \<^verbatim>\<open>a || b\<close>.\<close>

fun truthy :: "jsval \<Rightarrow> bool" where
  "truthy JUndefined = False"
| "truthy JNull = False"
| "truthy (JBool b) = b"
| "truthy (JNum n) = (n \<noteq> 0)"
| "truthy (JDec m e) = (m \<noteq> 0)"
| "truthy JNaN = False"
| "truthy JInfinity = True"
| "truthy JNegInfinity = True"
| "truthy JNegZero = False"
| "truthy (JStr s) = (s \<noteq> [])"
| "truthy (JRef a) = True"
| "truthy (JFun f) = True"
| "truthy JObjectPrototype = True"

definition js_or :: "jsval \<Rightarrow> jsval \<Rightarrow> jsval" where
  "js_or a b = (if truthy a then a else b)"

text \<open>
  The members of \<^verbatim>\<open>Object.prototype\<close>, which every plain object inherits: the function
  \<^verbatim>\<open>Object\<close> under the name \<^verbatim>\<open>constructor\<close>, ten functions under their own names, and
  the accessor \<^verbatim>\<open>__proto__\<close>, whose getter returns the prototype of the object it is
  read on and whose setter replaces it.
\<close>

definition Object_prototype_functions :: "string list" where
  "Object_prototype_functions =
     [''__defineGetter__'', ''__defineSetter__'', ''__lookupGetter__'', ''__lookupSetter__'',
      ''hasOwnProperty'', ''isPrototypeOf'', ''propertyIsEnumerable'', ''toLocaleString'',
      ''toString'', ''valueOf'']"

definition Object_prototype :: "string \<Rightarrow> jsval" where
  "Object_prototype k =
     (if k = ''constructor'' then JFun ''Object''
      else if k \<in> set Object_prototype_functions then JFun k
      else JUndefined)"

text \<open>Reading a property of a plain object, \<^verbatim>\<open>o[k]\<close>: the own property of that name
  comes first, and without one the read gives what \<^verbatim>\<open>Object.prototype\<close> has under the
  name. Writing a property other than
  \<^verbatim>\<open>__proto__\<close>, \<^verbatim>\<open>o[k] = v\<close>: a write to a name the object has keeps the name's place;
  a new name goes last.\<close>

definition get_own :: "obj \<Rightarrow> string \<Rightarrow> jsval" where
  "get_own ob k =
     (case map_of ob k of
        Some v \<Rightarrow> v
      | None \<Rightarrow> if k = ''__proto__'' then JObjectPrototype else Object_prototype k)"

definition has_own :: "obj \<Rightarrow> string \<Rightarrow> bool" where
  "has_own ob k = (k \<in> set (map fst ob))"

fun obj_set :: "(string \<times> 'a) list \<Rightarrow> string \<Rightarrow> 'a \<Rightarrow> (string \<times> 'a) list" where
  "obj_set [] k v = [(k, v)]"
| "obj_set ((k', v') # ps) k v =
     (if k' = k then (k, v) # ps else (k', v') # obj_set ps k v)"

declare obj_set.simps [simp del]

text \<open>\<^verbatim>\<open>v[k]\<close> on any value: a \<^verbatim>\<open>TypeError\<close> on \<^verbatim>\<open>undefined\<close> and \<^verbatim>\<open>null\<close>; a
  boolean, a number, a string or a function has none of the properties this program
  reads on a logged value (\<^verbatim>\<open>GELF\<close>, \<^verbatim>\<open>stack\<close>, and those of its enumerable names
  that start with an underscore).\<close>

fun get_prop :: "heap \<Rightarrow> jsval \<Rightarrow> string \<Rightarrow> error + jsval" where
  "get_prop h JUndefined k = Inl TypeError"
| "get_prop h JNull k = Inl TypeError"
| "get_prop h (JRef a) k = Inr (get_own (cells h a) k)"
| "get_prop h JObjectPrototype k = Inr (if k = ''__proto__'' then JNull else Object_prototype k)"
| "get_prop h v k = Inr JUndefined"

text \<open>Decimal numerals, for template literals and for the indices of a string.\<close>

definition digit_char :: "nat \<Rightarrow> char" where
  "digit_char d = ''0123456789'' ! (d mod 10)"

fun show_nat :: "nat \<Rightarrow> string" where
  "show_nat n = (if n < 10 then [digit_char n] else show_nat (n div 10) @ [digit_char n])"

declare show_nat.simps [simp del]

text \<open>
  \<^verbatim>\<open>Number::toString\<close> of ECMA-262 for a positive number, given by its digits \<open>s\<close>, the
  last of them not zero, and the exponent \<open>n\<close>: the number is \<open>0.s \<times> 10\<^sup>n\<close>. From
  \<open>10\<^sup>2\<^sup>1\<close> on and below \<open>10\<^sup>-\<^sup>6\<close> the notation has an exponent.
\<close>

definition show_number :: "string \<Rightarrow> int \<Rightarrow> string" where
  "show_number s n =
     (let k = int (length s) in
      if k \<le> n \<and> n \<le> 21 then s @ replicate (nat (n - k)) CHR ''0''
      else if 0 < n \<and> n \<le> 21 then take (nat n) s @ CHR ''.'' # drop (nat n) s
      else if - 6 < n \<and> n \<le> 0 then ''0.'' @ replicate (nat (- n)) CHR ''0'' @ s
      else take 1 s @ (if 1 < length s then CHR ''.'' # drop 1 s else [])
           @ CHR ''e'' # (if n - 1 < 0 then CHR ''-'' else CHR ''+'') # show_nat (nat \<bar>n - 1\<bar>))"

definition strip_zeros :: "string \<Rightarrow> string" where
  "strip_zeros s = rev (dropWhile (\<lambda>c. c = CHR ''0'') (rev s))"

definition show_int :: "int \<Rightarrow> string" where
  "show_int i =
     (if i = 0 then ''0''
      else (if i < 0 then ''-'' else [])
           @ show_number (strip_zeros (show_nat (nat \<bar>i\<bar>))) (int (length (show_nat (nat \<bar>i\<bar>)))))"

text \<open>The notation of \<open>m / 10 ^ e\<close>.\<close>

definition show_dec :: "int \<Rightarrow> nat \<Rightarrow> string" where
  "show_dec m e =
     (if m < 0 then ''-'' else [])
     @ show_number (show_nat (nat \<bar>m\<bar>)) (int (length (show_nat (nat \<bar>m\<bar>))) - int e)"

text \<open>The string a template literal puts for a value.\<close>

fun ToString :: "jsval \<Rightarrow> string" where
  "ToString JUndefined = ''undefined''"
| "ToString JNull = ''null''"
| "ToString (JBool b) = (if b then ''true'' else ''false'')"
| "ToString (JNum n) = show_int n"
| "ToString (JDec m e) = show_dec m e"
| "ToString JNaN = ''NaN''"
| "ToString JInfinity = ''Infinity''"
| "ToString JNegInfinity = ''-Infinity''"
| "ToString JNegZero = ''0''"
| "ToString (JStr s) = s"
| "ToString (JRef a) = ''[object Object]''"
| "ToString (JFun f) = ''function '' @ f @ ''() { [native code] }''"
| "ToString JObjectPrototype = ''[object Object]''"

text \<open>\<^verbatim>\<open>Object.keys(v)\<close>: the own enumerable names; the indices of a string; none for a
  boolean, a number, a built-in function or \<^verbatim>\<open>Object.prototype\<close>; a \<^verbatim>\<open>TypeError\<close> on
  \<^verbatim>\<open>undefined\<close> and \<^verbatim>\<open>null\<close>.\<close>

fun Object_keys :: "heap \<Rightarrow> jsval \<Rightarrow> error + string list" where
  "Object_keys h JUndefined = Inl TypeError"
| "Object_keys h JNull = Inl TypeError"
| "Object_keys h (JRef a) = Inr (map fst (cells h a))"
| "Object_keys h (JStr s) = Inr (map show_nat [0..<length s])"
| "Object_keys h v = Inr []"

text \<open>An array read \<^verbatim>\<open>xs[i]\<close>: \<^verbatim>\<open>undefined\<close> beyond the end.\<close>

definition item :: "jsval list \<Rightarrow> nat \<Rightarrow> jsval" where
  "item xs i = (if i < length xs then xs ! i else JUndefined)"

section \<open>Syslog levels and the level table\<close>

definition LOG_EMERG :: int where "LOG_EMERG = 0"
definition LOG_ALERT :: int where "LOG_ALERT = 1"
definition LOG_CRIT :: int where "LOG_CRIT = 2"
definition LOG_ERROR :: int where "LOG_ERROR = 3"
definition LOG_WARNING :: int where "LOG_WARNING = 4"
definition LOG_NOTICE :: int where "LOG_NOTICE = 5"
definition LOG_INFO :: int where "LOG_INFO = 6"
definition LOG_DEBUG :: int where "LOG_DEBUG = 7"

text \<open>
  The \<^verbatim>\<open>levels\<close> argument comes from the logging framework. A level is used only as a
  property name of \<^verbatim>\<open>levelMapping\<close>, so it is given here by the name it converts to
  (\<open>ALL\<close> is written \<open>ALL'\<close>, the plain name being a binder of HOL). The names of the
  framework are words in capital letters; each of the seven writes creates or replaces
  an own property of the table.
\<close>

type_synonym level = string

record levels =
  ALL' :: level
  TRACE :: level
  DEBUG :: level
  INFO :: level
  WARN :: level
  ERROR :: level
  FATAL :: level

definition levelMapping_of :: "levels \<Rightarrow> obj" where
  "levelMapping_of lv =
     obj_set (obj_set (obj_set (obj_set (obj_set (obj_set (obj_set []
       (ALL' lv) (JNum LOG_DEBUG))
       (TRACE lv) (JNum LOG_DEBUG))
       (DEBUG lv) (JNum LOG_DEBUG))
       (INFO lv) (JNum LOG_INFO))
       (WARN lv) (JNum LOG_WARNING))
       (ERROR lv) (JNum LOG_ERROR))
       (FATAL lv) (JNum LOG_CRIT)"

section \<open>The appender\<close>

text \<open>
  The configuration object. \<^verbatim>\<open>customFields\<close> is a mapping in the store or is not
  given; the other options are read through \<^verbatim>\<open>||\<close> and may hold any value.
\<close>

record config =
  host :: jsval
  port :: jsval
  hostname :: jsval
  facility :: jsval
  customFields :: "addr option"
  appendCategory :: jsval

text \<open>The variables that the functions of \<^verbatim>\<open>gelfAppender\<close> close over.\<close>

record appender =
  levelMapping :: obj
  ap_appendCategory :: jsval
  ap_host :: jsval
  ap_port :: jsval
  ap_hostname :: jsval
  defaultCustomFields :: addr

record loggingEvent =
  data :: "jsval list"
  level :: level
  categoryName :: jsval

text \<open>
  The UDP socket of \<^verbatim>\<open>dgram\<close> is outside this program. It is seen through the calls made
  on it, all of them recorded in order, and through the one piece of its state that
  decides whether a call raises: \<^verbatim>\<open>send\<close> and \<^verbatim>\<open>close\<close> raise
  \<^verbatim>\<open>ERR_SOCKET_DGRAM_NOT_RUNNING\<close> on a socket that has been closed.
\<close>

type_synonym byte = "8 word"

type_synonym callback = nat

datatype sock_call =
  Send "byte list" nat nat jsval jsval
| Close "callback option"

record socket =
  running :: bool
  calls :: "sock_call list"

definition createSocket :: socket where
  "createSocket = \<lparr>running = True, calls = []\<rparr>"

definition dgram_send :: "sock_call \<Rightarrow> socket \<Rightarrow> error option \<times> socket" where
  "dgram_send c s =
     (if running s then (None, s\<lparr>calls := calls s @ [c]\<rparr>)
      else (Some ERR_SOCKET_DGRAM_NOT_RUNNING, s\<lparr>calls := calls s @ [c]\<rparr>))"

definition dgram_close :: "callback option \<Rightarrow> socket \<Rightarrow> error option \<times> socket" where
  "dgram_close cb s =
     (if running s then (None, s\<lparr>running := False, calls := calls s @ [Close cb]\<rparr>)
      else (Some ERR_SOCKET_DGRAM_NOT_RUNNING, s\<lparr>calls := calls s @ [Close cb]\<rparr>))"

text \<open>What an appender changes outside the store: its socket, its listener on the
  process's \<^verbatim>\<open>exit\<close> event, and the lines written by \<^verbatim>\<open>debug\<close> and
  \<^verbatim>\<open>console.error\<close>.\<close>

record runtime =
  client :: socket
  exit_listener :: bool
  debug_out :: "string list"
  console_error :: "string list"

definition debug :: "string \<Rightarrow> runtime \<Rightarrow> runtime" where
  "debug line rt = rt\<lparr>debug_out := debug_out rt @ [line]\<rparr>"

definition alloc :: "heap \<Rightarrow> addr \<times> heap" where
  "alloc h = (fresh h, h\<lparr>cells := (cells h)(fresh h := []), fresh := Suc (fresh h)\<rparr>)"

definition heap_set :: "heap \<Rightarrow> addr \<Rightarrow> string \<Rightarrow> jsval \<Rightarrow> heap" where
  "heap_set h a k v = h\<lparr>cells := (cells h)(a := obj_set (cells h a) k v)\<rparr>"

text \<open>
  \<^verbatim>\<open>gelfAppender(layout, config, levels)\<close>, up to the definition of its inner functions.
  \<^verbatim>\<open>layout\<close> is not used. \<open>os_hostname\<close> is what \<^verbatim>\<open>OS.hostname()\<close> returns.
\<close>

definition gelfAppender ::
  "config \<Rightarrow> levels \<Rightarrow> string \<Rightarrow> heap \<Rightarrow> appender \<times> heap \<times> runtime" where
  "gelfAppender cfg lv os_hostname h =
     (let (dcf, h1) = (case customFields cfg of Some a \<Rightarrow> (a, h) | None \<Rightarrow> alloc h);
          h2 = (if truthy (facility cfg) then heap_set h1 dcf ''_facility'' (facility cfg) else h1)
      in (\<lparr>levelMapping = levelMapping_of lv,
           ap_appendCategory = js_or (appendCategory cfg) JUndefined,
           ap_host = js_or (host cfg) (JStr ''localhost''),
           ap_port = js_or (port cfg) (JNum 12201),
           ap_hostname = js_or (hostname cfg) (JStr os_hostname),
           defaultCustomFields = dcf\<rparr>,
          h2,
          \<lparr>client = createSocket, exit_listener = True,
           debug_out = [''Appender create with config ''], console_error = []\<rparr>))"

subsection \<open>The message under construction\<close>

text \<open>
  \<^verbatim>\<open>preparePacket\<close> creates the message as \<^verbatim>\<open>{}\<close> and fills it by assignments
  \<^verbatim>\<open>msg[key] = v\<close>, some of them under names taken from the configuration and from
  logged objects. Such a name can be \<^verbatim>\<open>__proto__\<close>, and an assignment to it that reaches
  the accessor of \<^verbatim>\<open>Object.prototype\<close> writes no property: it replaces the prototype
  of the message when the value is an object or \<^verbatim>\<open>null\<close>, and does nothing otherwise. So
  the message is its own properties together with its prototype.
\<close>

record message =
  props :: obj
  proto :: jsval

definition new_message :: "obj \<Rightarrow> message" where
  "new_message ps = \<lparr>props = ps, proto = JObjectPrototype\<rparr>"

definition is_object :: "jsval \<Rightarrow> bool" where
  "is_object v = (case v of JRef a \<Rightarrow> True | JFun f \<Rightarrow> True | JObjectPrototype \<Rightarrow> True | _ \<Rightarrow> False)"

text \<open>Whether the search for \<^verbatim>\<open>__proto__\<close> along the prototypes, from the given one on,
  ends at the accessor: not below \<^verbatim>\<open>null\<close>, and not when an object on the way has a
  property of that name itself.\<close>

definition reaches_accessor :: "heap \<Rightarrow> jsval \<Rightarrow> bool" where
  "reaches_accessor h p =
     (case p of
        JRef a \<Rightarrow> \<not> has_own (cells h a) ''__proto__''
      | JFun f \<Rightarrow> True
      | JObjectPrototype \<Rightarrow> True
      | _ \<Rightarrow> False)"

text \<open>\<^verbatim>\<open>msg[k] = v\<close>, for the names this program writes: names that start with an
  underscore, and \<^verbatim>\<open>short_message\<close>, \<^verbatim>\<open>full_message\<close>, \<^verbatim>\<open>version\<close>, \<^verbatim>\<open>timestamp\<close>,
  \<^verbatim>\<open>host\<close>, \<^verbatim>\<open>level\<close>.\<close>

definition msg_set :: "heap \<Rightarrow> message \<Rightarrow> string \<Rightarrow> jsval \<Rightarrow> message" where
  "msg_set h msg k v =
     (if k = ''__proto__'' \<and> \<not> has_own (props msg) k \<and> reaches_accessor h (proto msg)
      then (if is_object v \<or> v = JNull then msg\<lparr>proto := v\<rparr> else msg)
      else msg\<lparr>props := obj_set (props msg) k v\<rparr>)"

text \<open>\<^verbatim>\<open>msg[k]\<close>, for the names that are read on the message: \<^verbatim>\<open>timestamp\<close> by this
  program and \<^verbatim>\<open>toJSON\<close> by \<^verbatim>\<open>JSON.stringify\<close>. No function has a property of these
  names.\<close>

definition msg_get :: "heap \<Rightarrow> message \<Rightarrow> string \<Rightarrow> jsval" where
  "msg_get h msg k =
     (case map_of (props msg) k of
        Some v \<Rightarrow> v
      | None \<Rightarrow>
          (case proto msg of
             JRef a \<Rightarrow> get_own (cells h a) k
           | JObjectPrototype \<Rightarrow> Object_prototype k
           | _ \<Rightarrow> JUndefined))"

subsection \<open>Field merging\<close>

text \<open>The test \<^verbatim>\<open>key.match(/^_/) && key !== '_id'\<close>.\<close>

definition accepted :: "string \<Rightarrow> bool" where
  "accepted key = ((case key of [] \<Rightarrow> False | c # _ \<Rightarrow> c = CHR ''_'') \<and> key \<noteq> ''_id'')"

text \<open>The loop \<^verbatim>\<open>keys.forEach((key) => { if (...) msg[key] = src[key]; })\<close>, which
  the source writes twice, for the default fields and for the first data item.\<close>

fun copyFields :: "heap \<Rightarrow> jsval \<Rightarrow> string list \<Rightarrow> message \<Rightarrow> error + message" where
  "copyFields h src [] msg = Inr msg"
| "copyFields h src (key # keys) msg =
     (if accepted key then
        (case get_prop h src key of
           Inl e \<Rightarrow> Inl e
         | Inr v \<Rightarrow> copyFields h src keys (msg_set h msg key v))
      else copyFields h src keys msg)"

definition forEach_copy :: "heap \<Rightarrow> jsval \<Rightarrow> message \<Rightarrow> error + message" where
  "forEach_copy h src msg =
     (case Object_keys h src of Inl e \<Rightarrow> Inl e | Inr keys \<Rightarrow> copyFields h src keys msg)"

text \<open>\<^verbatim>\<open>addCustomFields(loggingEvent, msg)\<close> changes \<^verbatim>\<open>msg\<close> and, by \<^verbatim>\<open>shift\<close>,
  the event: both are returned.\<close>

definition addCustomFields_msg ::
  "appender \<Rightarrow> heap \<Rightarrow> loggingEvent \<Rightarrow> message \<Rightarrow> error + (message \<times> loggingEvent)" where
  "addCustomFields_msg ap h ev msg =
     (case forEach_copy h (JRef (defaultCustomFields ap)) msg of
        Inl e \<Rightarrow> Inl e
      | Inr msg1 \<Rightarrow>
          let msg2 = (if truthy (ap_appendCategory ap)
                      then msg_set h msg1 (CHR ''_'' # ToString (ap_appendCategory ap)) (categoryName ev)
                      else msg1);
              firstData = item (data ev) 0
          in if truthy firstData then
               (case get_prop h firstData ''GELF'' of
                  Inl e \<Rightarrow> Inl e
                | Inr g \<Rightarrow>
                    if \<not> truthy g then Inr (msg2, ev)
                    else (case forEach_copy h firstData msg2 of
                            Inl e \<Rightarrow> Inl e
                          | Inr msg3 \<Rightarrow> Inr (msg3, ev\<lparr>data := tl (data ev)\<rparr>)))
             else Inr (msg2, ev))"

text \<open>The own properties that \<^verbatim>\<open>addCustomFields\<close> leaves in a message that was a plain
  object with the given own properties.\<close>

definition addCustomFields ::
  "appender \<Rightarrow> heap \<Rightarrow> loggingEvent \<Rightarrow> obj \<Rightarrow> error + (obj \<times> loggingEvent)" where
  "addCustomFields ap h ev ps =
     (case addCustomFields_msg ap h ev (new_message ps) of
        Inl e \<Rightarrow> Inl e
      | Inr (msg, ev1) \<Rightarrow> Inr (props msg, ev1))"

subsection \<open>Packet building\<close>

text \<open>\<^verbatim>\<open>ms / 1000\<close> for a whole number of milliseconds: a decimal of at most three places.\<close>

definition div_1000 :: "int \<Rightarrow> jsval" where
  "div_1000 ms =
     (if ms mod 1000 = 0 then JNum (ms div 1000)
      else if ms mod 100 = 0 then JDec (ms div 100) 1
      else if ms mod 10 = 0 then JDec (ms div 10) 2
      else JDec ms 3)"

text \<open>\<^verbatim>\<open>preparePacket(loggingEvent)\<close>. \<open>now\<close> is what \<^verbatim>\<open>new Date().getTime()\<close> gives at
  the call, in milliseconds. \<^verbatim>\<open>levelMapping\<close> is a plain object, and the level is read
  from it as any property is.\<close>

definition preparePacket_msg ::
  "appender \<Rightarrow> int \<Rightarrow> heap \<Rightarrow> loggingEvent \<Rightarrow> error + (message \<times> loggingEvent)" where
  "preparePacket_msg ap now h ev =
     (case addCustomFields_msg ap h ev (new_message []) of
        Inl e \<Rightarrow> Inl e
      | Inr (msg0, ev1) \<Rightarrow>
          let msg1 = msg_set h msg0 ''short_message'' (item (data ev1) 0) in
          (case (if truthy (item (data ev1) 1)
                 then (case get_prop h (item (data ev1) 1) ''stack'' of
                         Inl e \<Rightarrow> Inl e
                       | Inr st \<Rightarrow> Inr (msg_set h msg1 ''full_message'' st))
                 else Inr (msg_set h msg1 ''full_message'' (JStr []))) of
             Inl e \<Rightarrow> Inl e
           | Inr msg2 \<Rightarrow>
               let msg3 = msg_set h msg2 ''version'' (JStr ''1.1'');
                   msg4 = msg_set h msg3 ''timestamp''
                            (js_or (msg_get h msg3 ''timestamp'') (div_1000 now));
                   msg5 = msg_set h msg4 ''host'' (ap_hostname ap);
                   msg6 = msg_set h msg5 ''level'' (get_own (levelMapping ap) (level ev1))
               in Inr (msg6, ev1)))"

text \<open>The own properties of the message that \<^verbatim>\<open>preparePacket\<close> returns: the packet, as
  \<^verbatim>\<open>JSON.stringify\<close> writes it and as a reader of its fields sees it.\<close>

definition preparePacket ::
  "appender \<Rightarrow> int \<Rightarrow> heap \<Rightarrow> loggingEvent \<Rightarrow> error + (obj \<times> loggingEvent)" where
  "preparePacket ap now h ev =
     (case preparePacket_msg ap now h ev of
        Inl e \<Rightarrow> Inl e
      | Inr (msg, ev1) \<Rightarrow> Inr (props msg, ev1))"

subsection \<open>Transport\<close>

text \<open>\<^verbatim>\<open>sendPacket(packet)\<close>, and the function it hands to \<^verbatim>\<open>client.send\<close>, which
  the socket calls later with the error of the send, if any.\<close>

definition sendPacket :: "appender \<Rightarrow> byte list \<Rightarrow> runtime \<Rightarrow> error option \<times> runtime" where
  "sendPacket ap packet rt =
     (let rt1 = debug ''Packet being sent over UDP'' rt;
          (e, s) = dgram_send (Send packet 0 (length packet) (ap_port ap) (ap_host ap)) (client rt1)
      in (e, rt1\<lparr>client := s\<rparr>))"

definition sendPacket_callback :: "string option \<Rightarrow> runtime \<Rightarrow> runtime" where
  "sendPacket_callback err rt =
     (case err of None \<Rightarrow> rt | Some e \<Rightarrow> rt\<lparr>console_error := console_error rt @ [e]\<rparr>)"

text \<open>
  The function that \<^verbatim>\<open>app\<close> hands to \<^verbatim>\<open>zlib.gzip\<close>. It is called with an error (given
  here by its \<^verbatim>\<open>stack\<close>) or with the compressed packet.
\<close>

definition gzip_callback ::
  "appender \<Rightarrow> string option \<Rightarrow> byte list \<Rightarrow> runtime \<Rightarrow> error option \<times> runtime" where
  "gzip_callback ap err packet rt =
     (case err of
        Some stack \<Rightarrow> (None, rt\<lparr>console_error := console_error rt @ [stack]\<rparr>)
      | None \<Rightarrow>
          if length packet > 8192 then
            (None, debug (''Message packet length ('' @ show_nat (length packet)
                          @ '') is larger than 8k. Not sending'') rt)
          else
            sendPacket ap packet
              (debug (''Message packet length: '' @ show_nat (length packet)) rt))"

text \<open>\<^verbatim>\<open>app.shutdown(cb)\<close>. An exception of \<^verbatim>\<open>client.close\<close> leaves the function
  before the listener is removed.\<close>

definition shutdown :: "callback option \<Rightarrow> runtime \<Rightarrow> error option \<times> runtime" where
  "shutdown cb rt =
     (let rt1 = debug ''Shutdown called'' rt;
          (e, s) = dgram_close cb (client rt1)
      in case e of
           Some err \<Rightarrow> (Some err, rt1\<lparr>client := s\<rparr>)
         | None \<Rightarrow> (None, rt1\<lparr>client := s, exit_listener := False\<rparr>))"

section \<open>Sample inputs\<close>

text \<open>The level names of log4js, a store, a configuration and an event, for the instances
  below.\<close>

definition log4js_levels :: levels where
  "log4js_levels = \<lparr>ALL' = ''ALL'', TRACE = ''TRACE'', DEBUG = ''DEBUG'', INFO = ''INFO'',
     WARN = ''WARN'', ERROR = ''ERROR'', FATAL = ''FATAL''\<rparr>"

definition example_heap :: heap where
  "example_heap = \<lparr>cells = (\<lambda>_. [])
      (0 := [(''_a'', JNum 1), (''_id'', JNum 99)],
       1 := [(''GELF'', JBool True), (''_x'', JNum 5), (''_id'', JNum 7), (''_a'', JNum 2), (''y'', JNum 3)],
       2 := [(''stack'', JStr ''trace...'')]),
     fresh = 3\<rparr>"

text \<open>A store with an object as \<^verbatim>\<open>JSON.parse\<close> gives it for the text
  \<^verbatim>\<open>{"GELF":true,"__proto__":{"timestamp":42},"_x":5}\<close>: the name \<^verbatim>\<open>__proto__\<close> is an own
  property of it.\<close>

definition proto_heap :: heap where
  "proto_heap = \<lparr>cells = (\<lambda>_. [])
      (0 := [(''_a'', JNum 1), (''_id'', JNum 99)],
       1 := [(''GELF'', JBool True), (''__proto__'', JRef 2), (''_x'', JNum 5)],
       2 := [(''timestamp'', JNum 42)]),
     fresh = 3\<rparr>"

definition example_config :: config where
  "example_config = \<lparr>host = JUndefined, port = JUndefined, hostname = JStr ''web1'',
     facility = JUndefined, customFields = Some 0, appendCategory = JUndefined\<rparr>"

definition example_event :: "jsval list \<Rightarrow> level \<Rightarrow> loggingEvent" where
  "example_event xs l = \<lparr>data = xs, level = l, categoryName = JStr ''app''\<rparr>"

definition example_runtime :: runtime where
  "example_runtime = snd (snd (gelfAppender example_config log4js_levels ''box'' example_heap))"

section \<open>Auxiliary notions\<close>

text \<open>The object that carries per-call custom fields, when the first data item of the
  event is one: an object with a truthy \<^verbatim>\<open>GELF\<close> property.\<close>

definition carrier :: "heap \<Rightarrow> loggingEvent \<Rightarrow> obj option" where
  "carrier h ev =
     (case item (data ev) 0 of
        JRef a \<Rightarrow> if truthy (get_own (cells h a) ''GELF'') then Some (cells h a) else None
      | _ \<Rightarrow> None)"

text \<open>The names that \<^verbatim>\<open>Object.prototype\<close> has a member for.\<close>

definition inherited_name :: "string \<Rightarrow> bool" where
  "inherited_name k =
     (k = ''__proto__'' \<or> k = ''constructor'' \<or> k \<in> set Object_prototype_functions)"

section \<open>Serialisation\<close>

text \<open>
  \<^verbatim>\<open>app\<close> turns the packet into text with \<^verbatim>\<open>JSON.stringify\<close>, into bytes with
  \<^verbatim>\<open>Buffer.from\<close>, and hands the bytes to \<^verbatim>\<open>zlib.gzip\<close>. None of the three is code of
  this repository. \<^verbatim>\<open>JSON.stringify\<close> and \<^verbatim>\<open>JSON.parse\<close> are written out below for the
  values of this theory, after ECMA-262; \<^verbatim>\<open>zlib\<close> is a parameter of the statements.

  A tree is a value with the objects it refers to in place of the references: what
  \<^verbatim>\<open>JSON.stringify\<close> walks through, and what \<^verbatim>\<open>JSON.parse\<close> builds.
\<close>

datatype tree = TUndefined | TFun string | TNull | TBool bool | TNum int | TDec int nat
  | TNaN | TInfinity | TNegInfinity | TNegZero | TStr string
  | TObj "(string \<times> tree) list"

text \<open>
  The tree below a value, and why there may be none. \<^verbatim>\<open>JSON.stringify\<close> raises a
  \<^verbatim>\<open>TypeError\<close> on a cyclic structure; the first argument bounds the nesting, and a
  nesting deeper than the number of objects allocated goes through a cycle. Before it
  walks through an object, \<^verbatim>\<open>JSON.stringify\<close> reads its \<^verbatim>\<open>toJSON\<close> property and, if that
  is a function, calls it: what a function returns is not part of this theory, and the
  walk stops there. \<^verbatim>\<open>Object.prototype\<close> has no enumerable property.
\<close>

datatype stop = Cyclic | Calls_toJSON

definition callable :: "jsval \<Rightarrow> bool" where
  "callable v = (case v of JFun f \<Rightarrow> True | _ \<Rightarrow> False)"

fun snapshot :: "nat \<Rightarrow> heap \<Rightarrow> jsval \<Rightarrow> stop + tree"
  and snapshot_props :: "nat \<Rightarrow> heap \<Rightarrow> obj \<Rightarrow> stop + (string \<times> tree) list" where
  "snapshot n h JUndefined = Inr TUndefined"
| "snapshot n h JNull = Inr TNull"
| "snapshot n h (JBool b) = Inr (TBool b)"
| "snapshot n h (JNum i) = Inr (TNum i)"
| "snapshot n h (JDec m e) = Inr (TDec m e)"
| "snapshot n h JNaN = Inr TNaN"
| "snapshot n h JInfinity = Inr TInfinity"
| "snapshot n h JNegInfinity = Inr TNegInfinity"
| "snapshot n h JNegZero = Inr TNegZero"
| "snapshot n h (JStr s) = Inr (TStr s)"
| "snapshot n h (JFun f) = Inr (TFun f)"
| "snapshot n h JObjectPrototype = Inr (TObj [])"
| "snapshot 0 h (JRef a) =
     (if callable (get_own (cells h a) ''toJSON'') then Inl Calls_toJSON else Inl Cyclic)"
| "snapshot (Suc n) h (JRef a) =
     (if callable (get_own (cells h a) ''toJSON'') then Inl Calls_toJSON
      else (case snapshot_props n h (cells h a) of Inl s \<Rightarrow> Inl s | Inr ts \<Rightarrow> Inr (TObj ts)))"
| "snapshot_props n h [] = Inr []"
| "snapshot_props n h ((k, v) # ps) =
     (case snapshot n h v of
        Inl s \<Rightarrow> Inl s
      | Inr t \<Rightarrow>
          (case snapshot_props n h ps of Inl s \<Rightarrow> Inl s | Inr ts \<Rightarrow> Inr ((k, t) # ts)))"











subsection \<open>Reading the text back\<close>




















subsection \<open>Notions for the round trip\<close>


text \<open>A decimal in lowest terms that is no integer.\<close>

definition dec_ok :: "int \<Rightarrow> nat \<Rightarrow> bool" where
  "dec_ok m e = (0 < e \<and> m mod 10 \<noteq> 0)"

fun wellformed :: "tree \<Rightarrow> bool"
  and wellformed_props :: "(string \<times> tree) list \<Rightarrow> bool" where
  "wellformed (TObj ps) = (distinct (map fst ps) \<and> wellformed_props ps)"
| "wellformed (TDec m e) = dec_ok m e"
| "wellformed t = True"
| "wellformed_props [] = True"
| "wellformed_props ((k, v) # ps) = (wellformed v \<and> wellformed_props ps)"




section \<open>Properties of the operations\<close>

lemma map_of_obj_set: "map_of (obj_set ob k v) = (map_of ob)(k \<mapsto> v)"
  by (induction ob) (auto simp: fun_eq_iff obj_set.simps)

lemma get_own_obj_set: "get_own (obj_set ob k v) k' = (if k' = k then v else get_own ob k')"
  by (simp add: get_own_def map_of_obj_set)

lemma has_own_map_of: "has_own ob k = (map_of ob k \<noteq> None)"
  by (induction ob) (auto simp: has_own_def)

lemma has_own_obj_set: "has_own (obj_set ob k v) k' = (k' = k \<or> has_own ob k')"
  by (simp add: has_own_map_of map_of_obj_set)

lemma has_own_Nil: "\<not> has_own [] k"
  by (simp add: has_own_def)

lemma get_own_Some: "map_of ob k = Some v \<Longrightarrow> get_own ob k = v"
  by (simp add: get_own_def)

lemma get_own_absent:
  "\<not> has_own ob k \<Longrightarrow>
   get_own ob k = (if k = ''__proto__'' then JObjectPrototype else Object_prototype k)"
  by (simp add: has_own_map_of get_own_def)

lemma Object_prototype_undefined: "\<not> inherited_name k \<Longrightarrow> Object_prototype k = JUndefined"
  by (simp add: inherited_name_def Object_prototype_def)

lemma get_own_absent_plain:
  "\<not> has_own ob k \<Longrightarrow> \<not> inherited_name k \<Longrightarrow> get_own ob k = JUndefined"
  by (simp add: get_own_absent Object_prototype_undefined) (simp add: inherited_name_def)

lemma inherited_name_simps:
  "\<not> inherited_name ''GELF''" "\<not> inherited_name ''stack''" "\<not> inherited_name ''timestamp''"
  "\<not> inherited_name ''toJSON''" "\<not> inherited_name ''_id''" "\<not> inherited_name ''level''"
  by (simp_all add: inherited_name_def Object_prototype_functions_def)

subsection \<open>Assignments to the message\<close>

lemma msg_set_other:
  "k \<noteq> ''__proto__'' \<Longrightarrow> msg_set h msg k v = msg\<lparr>props := obj_set (props msg) k v\<rparr>"
  by (simp add: msg_set_def)

lemma map_of_msg_set:
  "k' \<noteq> ''__proto__'' \<Longrightarrow>
   map_of (props (msg_set h msg k v)) k' = (if k' = k then Some v else map_of (props msg) k')"
  by (auto simp: msg_set_def map_of_obj_set)

lemma copyFields_ref_total: "\<exists>m. copyFields h (JRef a) ks msg = Inr m"
  by (induction ks arbitrary: msg) auto

lemma copyFields_ref_own:
  "copyFields h (JRef a) ks msg = Inr m \<Longrightarrow> k \<noteq> ''__proto__'' \<Longrightarrow>
   map_of (props m) k
     = (if k \<in> set ks \<and> accepted k then Some (get_own (cells h a) k) else map_of (props msg) k)"
  by (induction ks arbitrary: msg) (auto simp: map_of_msg_set split: if_splits)

lemma forEach_copy_ref:
  "\<exists>m. forEach_copy h (JRef a) msg = Inr m
     \<and> (\<forall>k. k \<noteq> ''__proto__'' \<longrightarrow> map_of (props m) k
           = (if has_own (cells h a) k \<and> accepted k then Some (get_own (cells h a) k)
              else map_of (props msg) k))"
proof -
  obtain m where m: "copyFields h (JRef a) (map fst (cells h a)) msg = Inr m"
    using copyFields_ref_total by blast
  have "forEach_copy h (JRef a) msg = Inr m"
    by (simp add: forEach_copy_def m)
  with copyFields_ref_own [OF m] show ?thesis
    by (auto simp: has_own_def)
qed

text \<open>A truthy value that is no reference has no GELF property.\<close>
lemma get_prop_truthy: "truthy v \<Longrightarrow> \<exists>g. get_prop h v k = Inr g"
  by (cases v) auto

lemma get_prop_GELF_truthy:
  "get_prop h v ''GELF'' = Inr g \<Longrightarrow> truthy g \<Longrightarrow> \<exists>a. v = JRef a \<and> g = get_own (cells h a) ''GELF''"
  by (cases v) (auto simp: Object_prototype_def Object_prototype_functions_def)

subsection \<open>Field merging\<close>

lemma addCustomFields_msg_carrier:
  assumes "item (data ev) 0 = JRef a" "truthy (get_own (cells h a) ''GELF'')"
      and "addCustomFields_msg ap h (ev\<lparr>data := []\<rparr>) msg = Inr (base, ev')"
  shows "\<exists>out. addCustomFields_msg ap h ev msg = Inr (out, ev\<lparr>data := tl (data ev)\<rparr>)
           \<and> forEach_copy h (JRef a) base = Inr out"
  using assms forEach_copy_ref [of h a base]
  by (auto simp: addCustomFields_msg_def item_def Let_def split: sum.splits if_splits)

lemma addCustomFields_msg_plain:
  assumes "\<forall>a. item (data ev) 0 = JRef a \<longrightarrow> \<not> truthy (get_own (cells h a) ''GELF'')"
      and "addCustomFields_msg ap h (ev\<lparr>data := []\<rparr>) msg = Inr (base, ev')"
  shows "addCustomFields_msg ap h ev msg = Inr (base, ev)"
proof (cases "truthy (item (data ev) 0)")
  case False
  with assms(2) show ?thesis
    by (auto simp: addCustomFields_msg_def item_def Let_def split: sum.splits if_splits)
next
  case True
  then obtain g where g: "get_prop h (item (data ev) 0) ''GELF'' = Inr g"
    using get_prop_truthy by blast
  have "\<not> truthy g" using get_prop_GELF_truthy [OF g] assms(1) by auto
  with True g assms(2) show ?thesis
    by (auto simp: addCustomFields_msg_def item_def Let_def split: sum.splits if_splits)
qed

lemma addCustomFields_msg_nodata:
  "\<exists>base. addCustomFields_msg ap h (ev\<lparr>data := []\<rparr>) msg = Inr (base, ev\<lparr>data := []\<rparr>)
     \<and> (\<forall>k. k \<noteq> ''__proto__'' \<longrightarrow> map_of (props base) k =
           (if truthy (ap_appendCategory ap) \<and> k = CHR ''_'' # ToString (ap_appendCategory ap)
            then Some (categoryName ev)
            else if has_own (cells h (defaultCustomFields ap)) k \<and> accepted k
            then Some (get_own (cells h (defaultCustomFields ap)) k) else map_of (props msg) k))"
proof -
  obtain m where m: "forEach_copy h (JRef (defaultCustomFields ap)) msg = Inr m"
    and g: "\<forall>k. k \<noteq> ''__proto__'' \<longrightarrow> map_of (props m) k
           = (if has_own (cells h (defaultCustomFields ap)) k \<and> accepted k
              then Some (get_own (cells h (defaultCustomFields ap)) k) else map_of (props msg) k)"
    using forEach_copy_ref [of h "defaultCustomFields ap" msg] by (elim exE conjE)
  show ?thesis
  proof (cases "truthy (ap_appendCategory ap)")
    case False
    then have "addCustomFields_msg ap h (ev\<lparr>data := []\<rparr>) msg = Inr (m, ev\<lparr>data := []\<rparr>)"
      by (simp add: addCustomFields_msg_def m item_def Let_def)
    with g False show ?thesis by simp
  next
    case True
    let ?m2 = "msg_set h m (CHR ''_'' # ToString (ap_appendCategory ap)) (categoryName ev)"
    have a: "addCustomFields_msg ap h (ev\<lparr>data := []\<rparr>) msg = Inr (?m2, ev\<lparr>data := []\<rparr>)"
      using True by (simp add: addCustomFields_msg_def m item_def Let_def)
    have "map_of (props ?m2) k =
           (if k = CHR ''_'' # ToString (ap_appendCategory ap) then Some (categoryName ev)
            else if has_own (cells h (defaultCustomFields ap)) k \<and> accepted k
            then Some (get_own (cells h (defaultCustomFields ap)) k) else map_of (props msg) k)"
      if "k \<noteq> ''__proto__''" for k
      using that g [THEN spec, of k] by (simp add: map_of_msg_set)
    with a True show ?thesis by simp
  qed
qed

lemma accepted_underscore: "accepted k \<Longrightarrow> \<exists>r. k = CHR ''_'' # r"
  by (cases k) (auto simp: accepted_def)

lemma addCustomFields_msg_level:
  "addCustomFields_msg ap h ev msg = Inr (msg0, ev1) \<Longrightarrow>
   level ev1 = level ev \<and> categoryName ev1 = categoryName ev"
  by (auto simp: addCustomFields_msg_def Let_def split: sum.splits if_splits)

lemma carrier_Some:
  "carrier h ev = Some c \<longleftrightarrow> (\<exists>a. item (data ev) 0 = JRef a \<and> truthy (get_own (cells h a) ''GELF'') \<and> c = cells h a)"
  by (auto simp: carrier_def split: jsval.splits)

lemma carrier_None:
  "carrier h ev = None \<longleftrightarrow> (\<forall>a. item (data ev) 0 = JRef a \<longrightarrow> \<not> truthy (get_own (cells h a) ''GELF''))"
  by (auto simp: carrier_def split: jsval.splits)

text \<open>What \<^verbatim>\<open>addCustomFields\<close> leaves under every name other than \<^verbatim>\<open>__proto__\<close>.\<close>

lemma addCustomFields_msg_spec:
  "\<exists>out. addCustomFields_msg ap h ev msg =
            Inr (out, if carrier h ev = None then ev else ev\<lparr>data := tl (data ev)\<rparr>)
     \<and> (\<forall>k. k \<noteq> ''__proto__'' \<longrightarrow> map_of (props out) k =
           (if (\<exists>c. carrier h ev = Some c \<and> has_own c k) \<and> accepted k
            then Some (get_own (the (carrier h ev)) k)
            else if truthy (ap_appendCategory ap) \<and> k = CHR ''_'' # ToString (ap_appendCategory ap)
            then Some (categoryName ev)
            else if has_own (cells h (defaultCustomFields ap)) k \<and> accepted k
            then Some (get_own (cells h (defaultCustomFields ap)) k) else map_of (props msg) k))"
proof -
  obtain base where b: "addCustomFields_msg ap h (ev\<lparr>data := []\<rparr>) msg = Inr (base, ev\<lparr>data := []\<rparr>)"
    and gb: "\<forall>k. k \<noteq> ''__proto__'' \<longrightarrow> map_of (props base) k =
           (if truthy (ap_appendCategory ap) \<and> k = CHR ''_'' # ToString (ap_appendCategory ap)
            then Some (categoryName ev)
            else if has_own (cells h (defaultCustomFields ap)) k \<and> accepted k
            then Some (get_own (cells h (defaultCustomFields ap)) k) else map_of (props msg) k)"
    using addCustomFields_msg_nodata [of ap h ev msg] by (elim exE conjE)
  show ?thesis
  proof (cases "carrier h ev")
    case None
    then have "addCustomFields_msg ap h ev msg = Inr (base, ev)"
      using addCustomFields_msg_plain [OF _ b] by (simp add: carrier_None)
    with None gb show ?thesis by simp
  next
    case (Some c)
    then obtain a where a: "item (data ev) 0 = JRef a" "truthy (get_own (cells h a) ''GELF'')"
        and c: "c = cells h a"
      by (auto simp: carrier_Some)
    obtain out where o: "addCustomFields_msg ap h ev msg = Inr (out, ev\<lparr>data := tl (data ev)\<rparr>)"
        and f: "forEach_copy h (JRef a) base = Inr out"
      using addCustomFields_msg_carrier [OF a b] by blast
    from forEach_copy_ref [of h a base] f
    have go: "\<forall>k. k \<noteq> ''__proto__'' \<longrightarrow> map_of (props out) k
        = (if has_own c k \<and> accepted k then Some (get_own c k) else map_of (props base) k)"
      by (simp add: c)
    have "map_of (props out) k =
           (if (\<exists>c. carrier h ev = Some c \<and> has_own c k) \<and> accepted k
            then Some (get_own (the (carrier h ev)) k)
            else if truthy (ap_appendCategory ap) \<and> k = CHR ''_'' # ToString (ap_appendCategory ap)
            then Some (categoryName ev)
            else if has_own (cells h (defaultCustomFields ap)) k \<and> accepted k
            then Some (get_own (cells h (defaultCustomFields ap)) k) else map_of (props msg) k)"
      if k: "k \<noteq> ''__proto__''" for k
    proof -
      have e1: "map_of (props out) k
          = (if has_own c k \<and> accepted k then Some (get_own c k) else map_of (props base) k)"
        using go k by blast
      have e2: "map_of (props base) k =
           (if truthy (ap_appendCategory ap) \<and> k = CHR ''_'' # ToString (ap_appendCategory ap)
            then Some (categoryName ev)
            else if has_own (cells h (defaultCustomFields ap)) k \<and> accepted k
            then Some (get_own (cells h (defaultCustomFields ap)) k) else map_of (props msg) k)"
        using gb k by blast
      show ?thesis unfolding e1 e2 using Some by simp
    qed
    with o Some show ?thesis by simp
  qed
qed

lemma addCustomFields_iff:
  "addCustomFields ap h ev ps = Inr (msg0, ev1)
     \<longleftrightarrow> (\<exists>m. addCustomFields_msg ap h ev (new_message ps) = Inr (m, ev1) \<and> msg0 = props m)"
  by (auto simp: addCustomFields_def split: sum.splits)

lemma preparePacket_iff:
  "preparePacket ap now h ev = Inr (msg, ev1)
     \<longleftrightarrow> (\<exists>m. preparePacket_msg ap now h ev = Inr (m, ev1) \<and> msg = props m)"
  by (auto simp: preparePacket_def split: sum.splits)

lemma addCustomFields_spec:
  "\<exists>out. addCustomFields ap h ev msg =
            Inr (out, if carrier h ev = None then ev else ev\<lparr>data := tl (data ev)\<rparr>)
     \<and> (\<forall>k. k \<noteq> ''__proto__'' \<longrightarrow> map_of out k =
           (if (\<exists>c. carrier h ev = Some c \<and> has_own c k) \<and> accepted k
            then Some (get_own (the (carrier h ev)) k)
            else if truthy (ap_appendCategory ap) \<and> k = CHR ''_'' # ToString (ap_appendCategory ap)
            then Some (categoryName ev)
            else if has_own (cells h (defaultCustomFields ap)) k \<and> accepted k
            then Some (get_own (cells h (defaultCustomFields ap)) k) else map_of msg k))"
proof -
  obtain out where o: "addCustomFields_msg ap h ev (new_message msg) =
            Inr (out, if carrier h ev = None then ev else ev\<lparr>data := tl (data ev)\<rparr>)"
    and g: "\<forall>k. k \<noteq> ''__proto__'' \<longrightarrow> map_of (props out) k =
           (if (\<exists>c. carrier h ev = Some c \<and> has_own c k) \<and> accepted k
            then Some (get_own (the (carrier h ev)) k)
            else if truthy (ap_appendCategory ap) \<and> k = CHR ''_'' # ToString (ap_appendCategory ap)
            then Some (categoryName ev)
            else if has_own (cells h (defaultCustomFields ap)) k \<and> accepted k
            then Some (get_own (cells h (defaultCustomFields ap)) k)
            else map_of (props (new_message msg)) k)"
    using addCustomFields_msg_spec [of ap h ev "new_message msg"] by (elim exE conjE)
  have "addCustomFields ap h ev msg =
      Inr (props out, if carrier h ev = None then ev else ev\<lparr>data := tl (data ev)\<rparr>)"
    by (simp add: addCustomFields_def o)
  moreover have "props (new_message msg) = msg" by (simp add: new_message_def)
  ultimately show ?thesis using g by (intro exI [of _ "props out"]) (simp only: simp_thms)
qed

text \<open>Every key that field merging puts into an empty message starts with an underscore.\<close>
lemma addCustomFields_msg_keys:
  assumes "addCustomFields_msg ap h ev (new_message []) = Inr (msg0, ev1)"
      and "k \<noteq> ''__proto__''" "\<forall>r. k \<noteq> CHR ''_'' # r"
  shows "map_of (props msg0) k = None"
proof -
  obtain out where o: "addCustomFields_msg ap h ev (new_message []) =
            Inr (out, if carrier h ev = None then ev else ev\<lparr>data := tl (data ev)\<rparr>)"
    and g: "\<forall>k. k \<noteq> ''__proto__'' \<longrightarrow> map_of (props out) k =
           (if (\<exists>c. carrier h ev = Some c \<and> has_own c k) \<and> accepted k
            then Some (get_own (the (carrier h ev)) k)
            else if truthy (ap_appendCategory ap) \<and> k = CHR ''_'' # ToString (ap_appendCategory ap)
            then Some (categoryName ev)
            else if has_own (cells h (defaultCustomFields ap)) k \<and> accepted k
            then Some (get_own (cells h (defaultCustomFields ap)) k)
            else map_of (props (new_message [])) k)"
    using addCustomFields_msg_spec [of ap h ev "new_message []"] by (elim exE conjE)
  have na: "\<not> accepted k" using accepted_underscore [of k] assms(3) by blast
  have "out = msg0" using o assms(1) by simp
  then show ?thesis
    using g [THEN spec, of k] assms(2,3) na by (simp add: new_message_def)
qed

subsection \<open>Packet building\<close>

lemma preparePacket_msg_form:
  assumes a: "addCustomFields_msg ap h ev (new_message []) = Inr (msg0, ev1)"
  shows "\<exists>fm. (if truthy (item (data ev1) 1)
               then get_prop h (item (data ev1) 1) ''stack'' = Inr fm else fm = JStr [])
          \<and> preparePacket_msg ap now h ev =
              Inr (msg0\<lparr>props := obj_set (obj_set (obj_set (obj_set (obj_set (obj_set (props msg0)
                     ''short_message'' (item (data ev1) 0))
                     ''full_message'' fm)
                     ''version'' (JStr ''1.1''))
                     ''timestamp'' (js_or (msg_get h msg0 ''timestamp'') (div_1000 now)))
                     ''host'' (ap_hostname ap))
                     ''level'' (get_own (levelMapping ap) (level ev1))\<rparr>, ev1)"
proof -
  have ts: "msg_get h (msg0\<lparr>props := obj_set (obj_set (obj_set (props msg0)
                     ''short_message'' x) ''full_message'' y) ''version'' z\<rparr>) ''timestamp''
      = msg_get h msg0 ''timestamp''" for x y z
    by (simp add: msg_get_def map_of_obj_set split: option.split)
  show ?thesis
  proof (cases "truthy (item (data ev1) 1)")
    case True
    then obtain fm where "get_prop h (item (data ev1) 1) ''stack'' = Inr fm"
      using get_prop_truthy by blast
    with True a show ?thesis
      by (simp add: preparePacket_msg_def Let_def msg_set_other ts)
  next
    case False
    with a show ?thesis
      by (simp add: preparePacket_msg_def Let_def msg_set_other ts)
  qed
qed

lemma addCustomFields_ex:
  "\<exists>msg0 ev1. addCustomFields ap h ev msg = Inr (msg0, ev1)"
  using addCustomFields_spec [of ap h ev msg] by blast

lemma addCustomFields_level:
  "addCustomFields ap h ev msg = Inr (msg0, ev1) \<Longrightarrow> level ev1 = level ev \<and> categoryName ev1 = categoryName ev"
  unfolding addCustomFields_iff using addCustomFields_msg_level by blast

text \<open>The packet: the fields of the custom fields, then six fixed ones. The timestamp is
  the clock's unless the message inherits a truthy one from a prototype that a
  \<^verbatim>\<open>__proto__\<close> field has given it.\<close>

lemma preparePacket_spec:
  "\<exists>msg0 ev1 fm ts msg.
      addCustomFields ap h ev [] = Inr (msg0, ev1)
    \<and> (if truthy (item (data ev1) 1)
         then get_prop h (item (data ev1) 1) ''stack'' = Inr fm else fm = JStr [])
    \<and> preparePacket ap now h ev = Inr (msg, ev1)
    \<and> msg = obj_set (obj_set (obj_set (obj_set (obj_set (obj_set msg0
                     ''short_message'' (item (data ev1) 0))
                     ''full_message'' fm)
                     ''version'' (JStr ''1.1''))
                     ''timestamp'' ts)
                     ''host'' (ap_hostname ap))
                     ''level'' (get_own (levelMapping ap) (level ev))"
proof -
  obtain m0 ev1 where a: "addCustomFields_msg ap h ev (new_message []) = Inr (m0, ev1)"
    using addCustomFields_msg_spec [of ap h ev "new_message []"] by blast
  obtain fm where f: "if truthy (item (data ev1) 1)
               then get_prop h (item (data ev1) 1) ''stack'' = Inr fm else fm = JStr []"
    and p: "preparePacket_msg ap now h ev =
              Inr (m0\<lparr>props := obj_set (obj_set (obj_set (obj_set (obj_set (obj_set (props m0)
                     ''short_message'' (item (data ev1) 0))
                     ''full_message'' fm)
                     ''version'' (JStr ''1.1''))
                     ''timestamp'' (js_or (msg_get h m0 ''timestamp'') (div_1000 now)))
                     ''host'' (ap_hostname ap))
                     ''level'' (get_own (levelMapping ap) (level ev1))\<rparr>, ev1)"
    using preparePacket_msg_form [OF a, of now] by (elim exE conjE)
  have l: "level ev1 = level ev" using addCustomFields_msg_level [OF a] by simp
  have a': "addCustomFields ap h ev [] = Inr (props m0, ev1)"
    by (simp add: addCustomFields_def a)
  have p': "preparePacket ap now h ev =
      Inr (obj_set (obj_set (obj_set (obj_set (obj_set (obj_set (props m0)
                     ''short_message'' (item (data ev1) 0))
                     ''full_message'' fm)
                     ''version'' (JStr ''1.1''))
                     ''timestamp'' (js_or (msg_get h m0 ''timestamp'') (div_1000 now)))
                     ''host'' (ap_hostname ap))
                     ''level'' (get_own (levelMapping ap) (level ev)), ev1)"
    by (simp add: preparePacket_def p l)
  from a' f p' show ?thesis by blast
qed

subsection \<open>The level table\<close>

lemma levelMapping_lookup:
  "get_own (levelMapping_of lv) k =
     (if k = FATAL lv then JNum 2 else if k = ERROR lv then JNum 3
      else if k = WARN lv then JNum 4 else if k = INFO lv then JNum 6
      else if k = DEBUG lv \<or> k = TRACE lv \<or> k = ALL' lv then JNum 7
      else if k = ''__proto__'' then JObjectPrototype else Object_prototype k)"
  by (simp add: levelMapping_of_def get_own_obj_set
      LOG_DEBUG_def LOG_INFO_def LOG_WARNING_def LOG_ERROR_def LOG_CRIT_def)
    (simp add: get_own_def)

lemma gelfAppender_levelMapping:
  "levelMapping (fst (gelfAppender cfg lv osh h0)) = levelMapping_of lv"
  by (simp add: gelfAppender_def Let_def split: prod.splits)

lemma levelMapping_distinct:
  assumes "distinct [ALL' lv, TRACE lv, DEBUG lv, INFO lv, WARN lv, ERROR lv, FATAL lv]"
  shows "get_own (levelMapping_of lv) (ALL' lv) = JNum 7"
    and "get_own (levelMapping_of lv) (TRACE lv) = JNum 7"
    and "get_own (levelMapping_of lv) (DEBUG lv) = JNum 7"
    and "get_own (levelMapping_of lv) (INFO lv) = JNum 6"
    and "get_own (levelMapping_of lv) (WARN lv) = JNum 4"
    and "get_own (levelMapping_of lv) (ERROR lv) = JNum 3"
    and "get_own (levelMapping_of lv) (FATAL lv) = JNum 2"
  using assms by (simp_all add: levelMapping_lookup)

text \<open>The equations that evaluate the operations at the sample inputs.\<close>

lemmas eval_defs = preparePacket_def preparePacket_msg_def div_1000_def addCustomFields_def
  addCustomFields_msg_def forEach_copy_def gelfAppender_def new_message_def msg_set_def msg_get_def
  reaches_accessor_def is_object_def Object_prototype_def Object_prototype_functions_def
  example_config_def example_heap_def example_event_def log4js_levels_def levelMapping_of_def
  obj_set.simps accepted_def item_def js_or_def get_own_def has_own_def Let_def carrier_def
  LOG_DEBUG_def LOG_INFO_def LOG_WARNING_def LOG_ERROR_def LOG_CRIT_def

subsection \<open>Properties of the serialisation\<close>


lemma less_10_cases:
  "(n::nat) < 10 \<Longrightarrow> n \<in> {0, 1, 2, 3, 4, 5, 6, 7, 8, 9}"
  by (simp only: insert_iff empty_iff) arith









lemma show_nat_0: "show_nat 0 = ''0''"
  by (subst show_nat.simps) (simp add: digit_char_def)



lemma last_show_nat: "last (show_nat n) = digit_char n"
  by (subst show_nat.simps) simp

lemma digit_char_zero: "(digit_char n = CHR ''0'') = (n mod 10 = 0)"
proof -
  have "n mod 10 \<in> {0,1,2,3,4,5,6,7,8,9}" by (rule less_10_cases) simp
  then show ?thesis by (auto simp: digit_char_def)
qed





subsection \<open>Reading a numeral\<close>









subsection \<open>The numerals of integers and decimals\<close>




lemma abs_not_zero: "i \<noteq> 0 \<Longrightarrow> nat \<bar>i\<bar> \<noteq> 0"
  by simp







subsection \<open>Reading a string\<close>








subsection \<open>Reading the text of a tree\<close>












subsection \<open>What the text stands for\<close>









subsection \<open>The packet and its text\<close>











text \<open>The timestamp that \<^verbatim>\<open>preparePacket\<close> computes is a decimal in lowest terms.\<close>

lemma div_1000_cases:
  obtains i where "div_1000 ms = JNum i"
  | m e where "div_1000 ms = JDec m e" "0 < e" "e \<le> 3" "m mod 10 \<noteq> 0"
proof (cases "ms mod 1000 = 0")
  case True
  then show ?thesis using that(1) by (simp add: div_1000_def)
next
  case n1: False
  show ?thesis
  proof (cases "ms mod 100 = 0")
    case True
    then have "100 dvd ms" by (simp add: mod_eq_0_iff_dvd)
    then obtain q where q: "ms = 100 * q" by (rule dvdE)
    have "q mod 10 \<noteq> 0"
    proof
      assume "q mod 10 = 0"
      then obtain r where "q = 10 * r" by (auto simp: mod_eq_0_iff_dvd)
      with q have "ms = 1000 * r" by simp
      with n1 show False by simp
    qed
    with q True n1 show ?thesis using that(2) [of "ms div 100" 1] by (simp add: div_1000_def)
  next
    case n2: False
    show ?thesis
    proof (cases "ms mod 10 = 0")
      case True
      then obtain q where q: "ms = 10 * q" by (auto simp: mod_eq_0_iff_dvd)
      have "q mod 10 \<noteq> 0"
      proof
        assume "q mod 10 = 0"
        then obtain r where "q = 10 * r" by (auto simp: mod_eq_0_iff_dvd)
        with q have "ms = 100 * r" by simp
        with n2 show False by simp
      qed
      with q True n1 n2 show ?thesis using that(2) [of "ms div 10" 2] by (simp add: div_1000_def)
    next
      case False
      with n1 n2 show ?thesis using that(2) [of ms 3] by (simp add: div_1000_def)
    qed
  qed
qed

lemma div_1000_wellformed: "snapshot n h (div_1000 ms) = Inr t \<Longrightarrow> wellformed t"
  by (rule div_1000_cases [of ms]) (auto simp: dec_ok_def)

section \<open>The claims\<close>

subsection \<open>Level Mapper\<close>

text \<open>
  Claim C3. For an appender built by \<^verbatim>\<open>gelfAppender\<close> from seven distinct level names,
  \<^verbatim>\<open>preparePacket\<close> returns a packet for every event, and the packet's \<^verbatim>\<open>level\<close> field
  is the entry of the level table for the event's severity: 7 for ALL, TRACE and DEBUG,
  6 for INFO, 4 for WARN, 3 for ERROR and 2 for FATAL.
\<close>

theorem level_mapper_table:
  assumes "distinct [ALL' lv, TRACE lv, DEBUG lv, INFO lv, WARN lv, ERROR lv, FATAL lv]"
  shows "\<exists>msg ev'. preparePacket (fst (gelfAppender cfg lv osh h0)) now h ev = Inr (msg, ev')
     \<and> get_own msg ''level'' = get_own (levelMapping (fst (gelfAppender cfg lv osh h0))) (level ev)
     \<and> (level ev = ALL' lv \<or> level ev = TRACE lv \<or> level ev = DEBUG lv \<longrightarrow> get_own msg ''level'' = JNum 7)
     \<and> (level ev = INFO lv \<longrightarrow> get_own msg ''level'' = JNum 6)
     \<and> (level ev = WARN lv \<longrightarrow> get_own msg ''level'' = JNum 4)
     \<and> (level ev = ERROR lv \<longrightarrow> get_own msg ''level'' = JNum 3)
     \<and> (level ev = FATAL lv \<longrightarrow> get_own msg ''level'' = JNum 2)"
proof -
  let ?ap = "fst (gelfAppender cfg lv osh h0)"
  obtain msg ev1 where p: "preparePacket ?ap now h ev = Inr (msg, ev1)"
    and l: "get_own msg ''level'' = get_own (levelMapping ?ap) (level ev)"
    using preparePacket_spec [of ?ap h ev now] by (auto simp: get_own_obj_set)
  have l': "get_own msg ''level'' = get_own (levelMapping_of lv) (level ev)"
    using l by (simp add: gelfAppender_levelMapping)
  show ?thesis
    using p l levelMapping_distinct [OF assms]
    by (intro exI [of _ msg] exI [of _ ev1]) (auto simp: l')
qed

text \<open>The instance at the level names of log4js and an event of level WARN.\<close>

theorem level_mapper_table_witness:
  "\<exists>msg ev'. preparePacket (fst (gelfAppender example_config log4js_levels ''box'' example_heap))
        1700000000000 example_heap (example_event [JStr ''hello''] ''WARN'') = Inr (msg, ev')
     \<and> get_own msg ''level'' = JNum 4"
  using level_mapper_table [where lv = log4js_levels and ev = "example_event [JStr ''hello''] ''WARN''"
      and cfg = example_config and osh = "''box''" and ?h0.0 = example_heap and now = 1700000000000
      and h = example_heap]
  by (auto simp: log4js_levels_def example_event_def)

text \<open>
  Claim C7, as stated, fails: \<^verbatim>\<open>constructor\<close> is none of the seven names of the table of
  log4js, and for an event of that severity the packet's \<^verbatim>\<open>level\<close> is the function
  \<^verbatim>\<open>Object\<close>, which the table inherits from \<^verbatim>\<open>Object.prototype\<close>, not \<^verbatim>\<open>undefined\<close>.
\<close>

theorem unmapped_level_counterexample:
  "''constructor'' \<notin> {ALL' log4js_levels, TRACE log4js_levels, DEBUG log4js_levels,
       INFO log4js_levels, WARN log4js_levels, ERROR log4js_levels, FATAL log4js_levels}
   \<and> level (example_event [JStr ''hello''] ''constructor'') = ''constructor''
   \<and> preparePacket (fst (gelfAppender example_config log4js_levels ''box'' example_heap))
        1700000000000 example_heap (example_event [JStr ''hello''] ''constructor'')
     = Inr ([(''_a'', JNum 1), (''short_message'', JStr ''hello''), (''full_message'', JStr []),
             (''version'', JStr ''1.1''), (''timestamp'', JNum 1700000000),
             (''host'', JStr ''web1''), (''level'', JFun ''Object'')],
            example_event [JStr ''hello''] ''constructor'')
   \<and> JFun ''Object'' \<noteq> JUndefined"
  by (simp add: eval_defs)

text \<open>
  Claim C7, amended. For a severity that is none of the seven names of the table, the
  table gives what a plain object gives for a name it has no property of: the member of
  \<^verbatim>\<open>Object.prototype\<close> of that name if there is one, and \<^verbatim>\<open>undefined\<close> for every other
  name. \<^verbatim>\<open>preparePacket\<close> raises nothing and returns a packet whose \<^verbatim>\<open>level\<close> property
  is present and holds that value.
\<close>

theorem unmapped_level_read:
  assumes "level ev \<notin> {ALL' lv, TRACE lv, DEBUG lv, INFO lv, WARN lv, ERROR lv, FATAL lv}"
  shows "get_own (levelMapping (fst (gelfAppender cfg lv osh h0))) (level ev)
           = (if level ev = ''__proto__'' then JObjectPrototype else Object_prototype (level ev))
     \<and> (\<not> inherited_name (level ev) \<longrightarrow>
           get_own (levelMapping (fst (gelfAppender cfg lv osh h0))) (level ev) = JUndefined)
     \<and> (\<exists>msg ev'. preparePacket (fst (gelfAppender cfg lv osh h0)) now h ev = Inr (msg, ev')
           \<and> has_own msg ''level''
           \<and> get_own msg ''level'' = get_own (levelMapping (fst (gelfAppender cfg lv osh h0))) (level ev))"
proof -
  let ?ap = "fst (gelfAppender cfg lv osh h0)"
  have u: "get_own (levelMapping ?ap) (level ev)
      = (if level ev = ''__proto__'' then JObjectPrototype else Object_prototype (level ev))"
    using assms by (simp add: gelfAppender_levelMapping levelMapping_lookup)
  have v: "get_own (levelMapping ?ap) (level ev) = JUndefined" if "\<not> inherited_name (level ev)"
    using that Object_prototype_undefined [OF that] by (simp add: u inherited_name_def)
  obtain msg ev1 where p: "preparePacket ?ap now h ev = Inr (msg, ev1)"
    and l: "get_own msg ''level'' = get_own (levelMapping ?ap) (level ev)"
    and hl: "has_own msg ''level''"
    using preparePacket_spec [of ?ap h ev now] by (auto simp: get_own_obj_set has_own_obj_set)
  from u v p l hl show ?thesis by blast
qed

text \<open>The instance at the level OFF of log4js, which the table does not list and
  \<^verbatim>\<open>Object.prototype\<close> has no member for.\<close>

theorem unmapped_level_read_witness:
  "get_own (levelMapping (fst (gelfAppender example_config log4js_levels ''box'' example_heap))) ''OFF'' = JUndefined
     \<and> (\<exists>msg ev'. preparePacket (fst (gelfAppender example_config log4js_levels ''box'' example_heap))
             1700000000000 example_heap (example_event [JStr ''hello''] ''OFF'') = Inr (msg, ev')
           \<and> has_own msg ''level'' \<and> get_own msg ''level'' = JUndefined)"
proof -
  have n: "\<not> inherited_name ''OFF''"
    by (simp add: inherited_name_def Object_prototype_functions_def)
  have t: "level (example_event [JStr ''hello''] ''OFF'')
      \<notin> {ALL' log4js_levels, TRACE log4js_levels, DEBUG log4js_levels, INFO log4js_levels,
          WARN log4js_levels, ERROR log4js_levels, FATAL log4js_levels}"
    by (simp add: log4js_levels_def example_event_def)
  have l: "level (example_event [JStr ''hello''] ''OFF'') = ''OFF''"
    by (simp add: example_event_def)
  show ?thesis
    using unmapped_level_read [where lv = log4js_levels and ev = "example_event [JStr ''hello''] ''OFF''"
      and cfg = example_config and osh = "''box''" and ?h0.0 = example_heap and now = 1700000000000
      and h = example_heap, OF t] n
    unfolding l by auto
qed

subsection \<open>Field Merger\<close>

text \<open>
  Claim C5, as stated, fails: with the defaults \<^verbatim>\<open>{_a:1, _id:99}\<close>, no per-event fields and
  the option \<^verbatim>\<open>appendCategory: 'id'\<close>, the packet contains the key \<^verbatim>\<open>_id\<close>.
\<close>

theorem default_fields_counterexample:
  "cells example_heap (defaultCustomFields (fst (gelfAppender
        (example_config\<lparr>appendCategory := JStr ''id''\<rparr>) log4js_levels ''box'' example_heap)))
     = [(''_a'', JNum 1), (''_id'', JNum 99)]
   \<and> carrier example_heap (example_event [JStr ''hello''] ''INFO'') = None
   \<and> preparePacket (fst (gelfAppender (example_config\<lparr>appendCategory := JStr ''id''\<rparr>)
          log4js_levels ''box'' example_heap))
        1700000000000 example_heap (example_event [JStr ''hello''] ''INFO'')
     = Inr ([(''_a'', JNum 1), (''_id'', JStr ''app''), (''short_message'', JStr ''hello''),
             (''full_message'', JStr []), (''version'', JStr ''1.1''),
             (''timestamp'', JNum 1700000000), (''host'', JStr ''web1''), (''level'', JNum 6)],
            example_event [JStr ''hello''] ''INFO'')
   \<and> has_own [(''_a'', JNum 1), (''_id'', JStr ''app''), (''short_message'', JStr ''hello''),
             (''full_message'', JStr []), (''version'', JStr ''1.1''),
             (''timestamp'', JNum 1700000000), (''host'', JStr ''web1''), (''level'', JNum 6)] ''_id''"
  by (simp add: eval_defs)

text \<open>
  Claim C5, amended. Of the keys other than \<^verbatim>\<open>__proto__\<close>, the loop over the default
  fields copies a key into a new message exactly when the key starts with an underscore
  and is not \<^verbatim>\<open>_id\<close>, with its value. When no \<^verbatim>\<open>appendCategory\<close> is configured and the
  first data item carries no fields, the packet's keys that start with an underscore are,
  \<^verbatim>\<open>__proto__\<close> apart, exactly those keys, with the values of the defaults. The key
  \<^verbatim>\<open>__proto__\<close> is not covered: see C4.
\<close>

theorem default_fields_filter:
  "(\<exists>m. forEach_copy h (JRef (defaultCustomFields ap)) (new_message []) = Inr m
       \<and> (\<forall>k. k \<noteq> ''__proto__'' \<longrightarrow>
              has_own (props m) k = (has_own (cells h (defaultCustomFields ap)) k \<and> accepted k))
       \<and> (\<forall>k. k \<noteq> ''__proto__'' \<longrightarrow> accepted k \<longrightarrow>
              get_own (props m) k = get_own (cells h (defaultCustomFields ap)) k))
   \<and> (\<not> truthy (ap_appendCategory ap) \<longrightarrow> carrier h ev = None \<longrightarrow>
       (\<exists>msg ev'. preparePacket ap now h ev = Inr (msg, ev')
          \<and> (\<forall>r. CHR ''_'' # r \<noteq> ''__proto__'' \<longrightarrow>
                 has_own msg (CHR ''_'' # r)
                   = (has_own (cells h (defaultCustomFields ap)) (CHR ''_'' # r) \<and> r \<noteq> ''id'')
               \<and> (r \<noteq> ''id'' \<longrightarrow> get_own msg (CHR ''_'' # r)
                     = get_own (cells h (defaultCustomFields ap)) (CHR ''_'' # r)))))"
proof (intro conjI impI)
  let ?d = "cells h (defaultCustomFields ap)"
  obtain m where m: "forEach_copy h (JRef (defaultCustomFields ap)) (new_message []) = Inr m"
    and g: "\<forall>k. k \<noteq> ''__proto__'' \<longrightarrow> map_of (props m) k
           = (if has_own ?d k \<and> accepted k then Some (get_own ?d k)
              else map_of (props (new_message [])) k)"
    using forEach_copy_ref [of h "defaultCustomFields ap" "new_message []"] by (elim exE conjE)
  have mo: "map_of (props m) k = (if has_own ?d k \<and> accepted k then Some (get_own ?d k) else None)"
    if "k \<noteq> ''__proto__''" for k
    using g that by (simp add: new_message_def)
  have 1: "has_own (props m) k = (has_own ?d k \<and> accepted k)" if "k \<noteq> ''__proto__''" for k
    by (simp add: has_own_map_of [of "props m"] mo [OF that])
  have 2: "get_own (props m) k = get_own ?d k" if "k \<noteq> ''__proto__''" "accepted k" for k
  proof (cases "has_own ?d k")
    case True
    then show ?thesis using that by (simp add: get_own_def [of "props m"] mo)
  next
    case False
    then show ?thesis using that by (simp add: get_own_def [of "props m"] mo get_own_absent)
  qed
  from m 1 2 show "\<exists>m. forEach_copy h (JRef (defaultCustomFields ap)) (new_message []) = Inr m
       \<and> (\<forall>k. k \<noteq> ''__proto__'' \<longrightarrow> has_own (props m) k = (has_own ?d k \<and> accepted k))
       \<and> (\<forall>k. k \<noteq> ''__proto__'' \<longrightarrow> accepted k \<longrightarrow> get_own (props m) k = get_own ?d k)"
    by blast
next
  let ?d = "cells h (defaultCustomFields ap)"
  assume nc: "\<not> truthy (ap_appendCategory ap)" and c: "carrier h ev = None"
  obtain msg0 ev1 fm ts msg where a: "addCustomFields ap h ev [] = Inr (msg0, ev1)"
    and p: "preparePacket ap now h ev = Inr (msg, ev1)"
    and m: "msg = obj_set (obj_set (obj_set (obj_set (obj_set (obj_set msg0
                     ''short_message'' (item (data ev1) 0))
                     ''full_message'' fm)
                     ''version'' (JStr ''1.1''))
                     ''timestamp'' ts)
                     ''host'' (ap_hostname ap))
                     ''level'' (get_own (levelMapping ap) (level ev))"
    using preparePacket_spec [of ap h ev now] by blast
  obtain out ev2 where o: "addCustomFields ap h ev [] = Inr (out, ev2)"
    and g: "\<forall>k. k \<noteq> ''__proto__'' \<longrightarrow> map_of out k =
           (if (\<exists>c. carrier h ev = Some c \<and> has_own c k) \<and> accepted k
            then Some (get_own (the (carrier h ev)) k)
            else if truthy (ap_appendCategory ap) \<and> k = CHR ''_'' # ToString (ap_appendCategory ap)
            then Some (categoryName ev)
            else if has_own ?d k \<and> accepted k
            then Some (get_own ?d k) else map_of [] k)"
    using addCustomFields_spec [of ap h ev "[]"] by blast
  have eq: "out = msg0" using o a by simp
  have g0: "map_of msg0 k = (if has_own ?d k \<and> accepted k then Some (get_own ?d k) else None)"
    if "k \<noteq> ''__proto__''" for k
    using g that by (simp add: eq nc c)
  have acc: "\<And>r. accepted (CHR ''_'' # r) = (r \<noteq> ''id'')"
    by (simp add: accepted_def)
  have mo: "map_of msg (CHR ''_'' # r)
      = (if has_own ?d (CHR ''_'' # r) \<and> r \<noteq> ''id'' then Some (get_own ?d (CHR ''_'' # r)) else None)"
    if "CHR ''_'' # r \<noteq> ''__proto__''" for r
    using g0 [OF that] by (simp add: m map_of_obj_set acc)
  have "has_own msg (CHR ''_'' # r) = (has_own ?d (CHR ''_'' # r) \<and> r \<noteq> ''id'')
          \<and> (r \<noteq> ''id'' \<longrightarrow> get_own msg (CHR ''_'' # r) = get_own ?d (CHR ''_'' # r))"
    if r: "CHR ''_'' # r \<noteq> ''__proto__''" for r
  proof (cases "has_own ?d (CHR ''_'' # r)")
    case True
    then show ?thesis
      by (simp add: has_own_map_of [of msg] get_own_def [of msg] mo [OF r])
  next
    case False
    then show ?thesis
      by (simp add: has_own_map_of [of msg] get_own_def [of msg] mo [OF r] get_own_absent)
  qed
  with p show "\<exists>msg ev'. preparePacket ap now h ev = Inr (msg, ev')
          \<and> (\<forall>r. CHR ''_'' # r \<noteq> ''__proto__'' \<longrightarrow>
                 has_own msg (CHR ''_'' # r) = (has_own ?d (CHR ''_'' # r) \<and> r \<noteq> ''id'')
               \<and> (r \<noteq> ''id'' \<longrightarrow> get_own msg (CHR ''_'' # r) = get_own ?d (CHR ''_'' # r)))"
    by blast
qed

text \<open>The instance at the defaults \<^verbatim>\<open>{_a:1, _id:99}\<close>: the packet has \<^verbatim>\<open>_a = 1\<close> and
  no \<^verbatim>\<open>_id\<close>.\<close>

theorem default_fields_filter_witness:
  "\<exists>msg ev'. preparePacket (fst (gelfAppender example_config log4js_levels ''box'' example_heap))
        1700000000000 example_heap (example_event [JStr ''hello''] ''INFO'') = Inr (msg, ev')
     \<and> has_own msg ''_a'' \<and> get_own msg ''_a'' = JNum 1 \<and> \<not> has_own msg ''_id''"
proof -
  let ?ap = "fst (gelfAppender example_config log4js_levels ''box'' example_heap)"
  let ?ev = "example_event [JStr ''hello''] ''INFO''"
  have 1: "\<not> truthy (ap_appendCategory ?ap)" by (simp add: eval_defs)
  have 2: "carrier example_heap ?ev = None" by (simp add: eval_defs)
  have 3: "cells example_heap (defaultCustomFields ?ap) = [(''_a'', JNum 1), (''_id'', JNum 99)]"
    by (simp add: eval_defs)
  note r = default_fields_filter [of example_heap ?ap ?ev 1700000000000, THEN conjunct2, rule_format, OF 1 2]
  then obtain msg ev' where p: "preparePacket ?ap 1700000000000 example_heap ?ev = Inr (msg, ev')"
    and k: "\<forall>r. CHR ''_'' # r \<noteq> ''__proto__'' \<longrightarrow>
               has_own msg (CHR ''_'' # r)
                 = (has_own (cells example_heap (defaultCustomFields ?ap)) (CHR ''_'' # r) \<and> r \<noteq> ''id'')
             \<and> (r \<noteq> ''id'' \<longrightarrow> get_own msg (CHR ''_'' # r)
                     = get_own (cells example_heap (defaultCustomFields ?ap)) (CHR ''_'' # r))"
    by (elim exE conjE)
  have "has_own msg ''_a''" "get_own msg ''_a'' = JNum 1" "\<not> has_own msg ''_id''"
    using k [THEN spec, of "''a''"] k [THEN spec, of "''id''"]
    unfolding 3 by (simp_all add: has_own_def get_own_def)
  with p show ?thesis by (intro exI [of _ msg] exI [of _ ev']) simp
qed

text \<open>
  Claim C10. With \<^verbatim>\<open>appendCategory: 'id'\<close> the packet of every event has the key
  \<^verbatim>\<open>_id\<close>, holding the event's category name, although the filter of the custom fields
  rejects that key.
\<close>

theorem appendCategory_id:
  assumes "appendCategory cfg = JStr ''id''"
  shows "\<not> accepted ''_id''
     \<and> (\<exists>msg ev'. preparePacket (fst (gelfAppender cfg lv osh h0)) now h ev = Inr (msg, ev')
           \<and> has_own msg ''_id'' \<and> get_own msg ''_id'' = categoryName ev)"
proof -
  let ?ap = "fst (gelfAppender cfg lv osh h0)"
  have cat: "ap_appendCategory ?ap = JStr ''id''"
    using assms by (simp add: gelfAppender_def Let_def js_or_def split: prod.splits)
  have na: "\<not> accepted ''_id''" by (simp add: accepted_def)
  obtain msg0 ev1 fm ts msg where a: "addCustomFields ?ap h ev [] = Inr (msg0, ev1)"
    and p: "preparePacket ?ap now h ev = Inr (msg, ev1)"
    and m: "msg = obj_set (obj_set (obj_set (obj_set (obj_set (obj_set msg0
                     ''short_message'' (item (data ev1) 0))
                     ''full_message'' fm)
                     ''version'' (JStr ''1.1''))
                     ''timestamp'' ts)
                     ''host'' (ap_hostname ?ap))
                     ''level'' (get_own (levelMapping ?ap) (level ev))"
    using preparePacket_spec [of ?ap h ev now] by blast
  from addCustomFields_spec [of ?ap h ev "[]"] a
  have "map_of msg0 ''_id'' = Some (categoryName ev)"
    by (auto simp: cat na)
  then have "get_own msg0 ''_id'' = categoryName ev" and "has_own msg0 ''_id''"
    by (simp_all add: get_own_Some has_own_map_of)
  then have "has_own msg ''_id'' \<and> get_own msg ''_id'' = categoryName ev"
    by (simp add: m get_own_obj_set has_own_obj_set)
  with p na show ?thesis by blast
qed

text \<open>The instance at an event of category \<^verbatim>\<open>app\<close>.\<close>

theorem appendCategory_id_witness:
  "\<not> accepted ''_id''
     \<and> (\<exists>msg ev'. preparePacket (fst (gelfAppender (example_config\<lparr>appendCategory := JStr ''id''\<rparr>)
                 log4js_levels ''box'' example_heap)) 1700000000000 example_heap
                 (example_event [JStr ''hello''] ''INFO'') = Inr (msg, ev')
           \<and> has_own msg ''_id'' \<and> get_own msg ''_id'' = JStr ''app'')"
  using appendCategory_id [where cfg = "example_config\<lparr>appendCategory := JStr ''id''\<rparr>"
      and lv = log4js_levels and osh = "''box''" and ?h0.0 = example_heap and now = 1700000000000
      and h = example_heap and ev = "example_event [JStr ''hello''] ''INFO''"]
  by (auto simp: example_event_def)

text \<open>
  Claim C4 and the code differ at the key \<^verbatim>\<open>__proto__\<close>. The first data item below has a
  truthy \<^verbatim>\<open>GELF\<close> and the own keys \<^verbatim>\<open>__proto__\<close> and \<^verbatim>\<open>_x\<close>, both of which pass the
  filter. The item is removed from the data and \<^verbatim>\<open>_x\<close> is in the packet, but
  \<^verbatim>\<open>__proto__\<close> is not: the assignment \<^verbatim>\<open>msg[key] = firstData[key]\<close> has made the logged
  object the prototype of the message instead, and the packet's \<^verbatim>\<open>timestamp\<close> is the 42
  that the message inherits from it, not the clock's.
\<close>

theorem per_event_proto_key:
  "item (data (example_event [JRef 1, JStr ''hello''] ''INFO'')) 0 = JRef 1
   \<and> truthy (get_own (cells proto_heap 1) ''GELF'')
   \<and> has_own (cells proto_heap 1) ''__proto__'' \<and> accepted ''__proto__''
   \<and> has_own (cells proto_heap 1) ''_x'' \<and> accepted ''_x''
   \<and> preparePacket (fst (gelfAppender example_config log4js_levels ''box'' proto_heap))
        1700000000000 proto_heap (example_event [JRef 1, JStr ''hello''] ''INFO'')
     = Inr ([(''_a'', JNum 1), (''_x'', JNum 5), (''short_message'', JStr ''hello''),
             (''full_message'', JStr []), (''version'', JStr ''1.1''), (''timestamp'', JNum 42),
             (''host'', JStr ''web1''), (''level'', JNum 6)],
            example_event [JStr ''hello''] ''INFO'')
   \<and> \<not> has_own [(''_a'', JNum 1), (''_x'', JNum 5), (''short_message'', JStr ''hello''),
             (''full_message'', JStr []), (''version'', JStr ''1.1''), (''timestamp'', JNum 42),
             (''host'', JStr ''web1''), (''level'', JNum 6)] ''__proto__''
   \<and> (\<exists>msg. preparePacket_msg (fst (gelfAppender example_config log4js_levels ''box'' proto_heap))
        1700000000000 proto_heap (example_event [JRef 1, JStr ''hello''] ''INFO'')
          = Inr (msg, example_event [JStr ''hello''] ''INFO'') \<and> proto msg = JRef 2)"
  by (simp add: eval_defs proto_heap_def)

text \<open>Every other key is treated as C4 says, for every event and every message to start
  from. When the first data item is an object with a truthy \<^verbatim>\<open>GELF\<close>, its keys that pass the
  filter are in the output with its values, the other keys are as field merging without
  data leaves them, and the item is removed from the data; otherwise the output is that
  of field merging without data and the event is as it was.\<close>

lemma per_event_fields_other_keys:
  "(\<forall>a. item (data ev) 0 = JRef a \<longrightarrow> truthy (get_own (cells h a) ''GELF'') \<longrightarrow>
      (\<exists>out base. addCustomFields ap h ev msg = Inr (out, ev\<lparr>data := tl (data ev)\<rparr>)
         \<and> addCustomFields ap h (ev\<lparr>data := []\<rparr>) msg = Inr (base, ev\<lparr>data := []\<rparr>)
         \<and> (\<forall>k. k \<noteq> ''__proto__'' \<longrightarrow> map_of out k =
               (if has_own (cells h a) k \<and> accepted k then Some (get_own (cells h a) k)
                else map_of base k))))
   \<and> ((\<forall>a. item (data ev) 0 = JRef a \<longrightarrow> \<not> truthy (get_own (cells h a) ''GELF'')) \<longrightarrow>
      (\<exists>base. addCustomFields ap h ev msg = Inr (base, ev)
         \<and> addCustomFields ap h (ev\<lparr>data := []\<rparr>) msg = Inr (base, ev\<lparr>data := []\<rparr>)))"
proof -
  obtain b where b: "addCustomFields_msg ap h (ev\<lparr>data := []\<rparr>) (new_message msg) = Inr (b, ev\<lparr>data := []\<rparr>)"
    using addCustomFields_msg_nodata [of ap h ev "new_message msg"] by blast
  have b': "addCustomFields ap h (ev\<lparr>data := []\<rparr>) msg = Inr (props b, ev\<lparr>data := []\<rparr>)"
    by (simp add: addCustomFields_def b)
  have 1: "\<exists>out base. addCustomFields ap h ev msg = Inr (out, ev\<lparr>data := tl (data ev)\<rparr>)
         \<and> addCustomFields ap h (ev\<lparr>data := []\<rparr>) msg = Inr (base, ev\<lparr>data := []\<rparr>)
         \<and> (\<forall>k. k \<noteq> ''__proto__'' \<longrightarrow> map_of out k =
               (if has_own (cells h a) k \<and> accepted k then Some (get_own (cells h a) k)
                else map_of base k))"
    if a: "item (data ev) 0 = JRef a" "truthy (get_own (cells h a) ''GELF'')" for a
  proof -
    obtain out where o: "addCustomFields_msg ap h ev (new_message msg) = Inr (out, ev\<lparr>data := tl (data ev)\<rparr>)"
      and f: "forEach_copy h (JRef a) b = Inr out"
      using addCustomFields_msg_carrier [OF a b] by blast
    have o': "addCustomFields ap h ev msg = Inr (props out, ev\<lparr>data := tl (data ev)\<rparr>)"
      by (simp add: addCustomFields_def o)
    from forEach_copy_ref [of h a b] f
    have "\<forall>k. k \<noteq> ''__proto__'' \<longrightarrow> map_of (props out) k
        = (if has_own (cells h a) k \<and> accepted k then Some (get_own (cells h a) k)
           else map_of (props b) k)"
      by simp
    with o' b' show ?thesis by blast
  qed
  have 2: "\<exists>base. addCustomFields ap h ev msg = Inr (base, ev)
         \<and> addCustomFields ap h (ev\<lparr>data := []\<rparr>) msg = Inr (base, ev\<lparr>data := []\<rparr>)"
    if "\<forall>a. item (data ev) 0 = JRef a \<longrightarrow> \<not> truthy (get_own (cells h a) ''GELF'')"
  proof -
    have "addCustomFields ap h ev msg = Inr (props b, ev)"
      using addCustomFields_msg_plain [OF that b] by (simp add: addCustomFields_def)
    with b' show ?thesis by blast
  qed
  from 1 2 show ?thesis by blast
qed

subsection \<open>Packet Builder\<close>

text \<open>
  Claim C6, as stated, fails: for the data \<^verbatim>\<open>['hello', 0]\<close> a second data item is present,
  its \<^verbatim>\<open>stack\<close> is \<^verbatim>\<open>undefined\<close>, and \<^verbatim>\<open>full_message\<close> is the empty string.
\<close>

theorem full_message_counterexample:
  "preparePacket (fst (gelfAppender example_config log4js_levels ''box'' example_heap))
      1700000000000 example_heap (example_event [JStr ''hello'', JNum 0] ''INFO'')
     = Inr ([(''_a'', JNum 1), (''short_message'', JStr ''hello''), (''full_message'', JStr []),
             (''version'', JStr ''1.1''), (''timestamp'', JNum 1700000000),
             (''host'', JStr ''web1''), (''level'', JNum 6)],
            example_event [JStr ''hello'', JNum 0] ''INFO'')
   \<and> 1 < length (data (example_event [JStr ''hello'', JNum 0] ''INFO''))
   \<and> get_prop example_heap (data (example_event [JStr ''hello'', JNum 0] ''INFO'') ! 1) ''stack''
       = Inr JUndefined"
  by (simp add: eval_defs)

text \<open>
  Claim C6, amended. \<^verbatim>\<open>short_message\<close> is the first data item after field merging, and
  \<^verbatim>\<open>full_message\<close> is the \<^verbatim>\<open>stack\<close> property of the second data item when that item is
  truthy, the empty string otherwise.
\<close>

theorem packet_messages:
  "\<exists>msg0 ev1 msg.
      addCustomFields ap h ev [] = Inr (msg0, ev1)
    \<and> preparePacket ap now h ev = Inr (msg, ev1)
    \<and> get_own msg ''short_message'' = item (data ev1) 0
    \<and> (if truthy (item (data ev1) 1)
       then get_prop h (item (data ev1) 1) ''stack'' = Inr (get_own msg ''full_message'')
       else get_own msg ''full_message'' = JStr [])"
proof -
  obtain msg0 ev1 fm ts msg where a: "addCustomFields ap h ev [] = Inr (msg0, ev1)"
    and f: "if truthy (item (data ev1) 1)
         then get_prop h (item (data ev1) 1) ''stack'' = Inr fm else fm = JStr []"
    and p: "preparePacket ap now h ev = Inr (msg, ev1)"
    and m: "msg = obj_set (obj_set (obj_set (obj_set (obj_set (obj_set msg0
                     ''short_message'' (item (data ev1) 0))
                     ''full_message'' fm)
                     ''version'' (JStr ''1.1''))
                     ''timestamp'' ts)
                     ''host'' (ap_hostname ap))
                     ''level'' (get_own (levelMapping ap) (level ev))"
    using preparePacket_spec [of ap h ev now] by blast
  have s: "get_own msg ''short_message'' = item (data ev1) 0"
    and fm: "get_own msg ''full_message'' = fm"
    by (simp_all add: m get_own_obj_set)
  from a p s f show ?thesis
    unfolding fm [symmetric] by blast
qed

text \<open>The instances at \<^verbatim>\<open>['hello']\<close> and at \<^verbatim>\<open>['hello', {stack: 'trace...'}]\<close>.\<close>

theorem packet_messages_witness:
  "(\<exists>msg ev1. preparePacket (fst (gelfAppender example_config log4js_levels ''box'' example_heap))
        1700000000000 example_heap (example_event [JStr ''hello''] ''INFO'') = Inr (msg, ev1)
     \<and> get_own msg ''short_message'' = JStr ''hello'' \<and> get_own msg ''full_message'' = JStr [])
   \<and> (\<exists>msg ev1. preparePacket (fst (gelfAppender example_config log4js_levels ''box'' example_heap))
        1700000000000 example_heap (example_event [JStr ''hello'', JRef 2] ''INFO'') = Inr (msg, ev1)
     \<and> get_own msg ''short_message'' = JStr ''hello'' \<and> get_own msg ''full_message'' = JStr ''trace...'')"
proof -
  let ?ap = "fst (gelfAppender example_config log4js_levels ''box'' example_heap)"
  have a1: "addCustomFields ?ap example_heap (example_event [JStr ''hello''] ''INFO'') []
      = Inr ([(''_a'', JNum 1)], example_event [JStr ''hello''] ''INFO'')"
    by (simp add: eval_defs)
  have a2: "addCustomFields ?ap example_heap (example_event [JStr ''hello'', JRef 2] ''INFO'') []
      = Inr ([(''_a'', JNum 1)], example_event [JStr ''hello'', JRef 2] ''INFO'')"
    by (simp add: eval_defs)
  have s: "get_own (cells example_heap 2) ''stack'' = JStr ''trace...''"
    by (simp add: eval_defs)
  show ?thesis
    using packet_messages [of ?ap example_heap "example_event [JStr ''hello''] ''INFO''" 1700000000000]
      packet_messages [of ?ap example_heap "example_event [JStr ''hello'', JRef 2] ''INFO''" 1700000000000]
    unfolding a1 a2
    by (auto simp: example_event_def item_def s)
qed

subsection \<open>Transport\<close>

text \<open>
  Claim C1. Called with a compressed packet, the function given to \<^verbatim>\<open>zlib.gzip\<close> calls
  \<^verbatim>\<open>client.send\<close> with the packet exactly when the packet has at most 8192 bytes. For a
  longer packet it raises nothing, leaves the socket and \<^verbatim>\<open>console.error\<close> alone and
  writes one \<^verbatim>\<open>debug\<close> line with the length.
\<close>

theorem size_gate:
  "(calls (client (snd (gzip_callback ap None packet rt)))
      = calls (client rt) @ [Send packet 0 (length packet) (ap_port ap) (ap_host ap)])
     = (length packet \<le> 8192)
   \<and> (8192 < length packet \<longrightarrow>
        fst (gzip_callback ap None packet rt) = None
      \<and> client (snd (gzip_callback ap None packet rt)) = client rt
      \<and> console_error (snd (gzip_callback ap None packet rt)) = console_error rt
      \<and> debug_out (snd (gzip_callback ap None packet rt)) = debug_out rt @
           [''Message packet length ('' @ show_nat (length packet) @ '') is larger than 8k. Not sending''])"
  by (auto simp: gzip_callback_def sendPacket_def dgram_send_def debug_def Let_def)

text \<open>The instances at packets of 8192 and of 8193 bytes.\<close>

theorem size_gate_witness:
  "calls (client (snd (gzip_callback (fst (gelfAppender example_config log4js_levels ''box'' example_heap))
        None (replicate 8192 0) example_runtime)))
     = [Send (replicate 8192 0) 0 8192 (JNum 12201) (JStr ''localhost'')]
   \<and> calls (client (snd (gzip_callback (fst (gelfAppender example_config log4js_levels ''box'' example_heap))
        None (replicate 8193 0) example_runtime))) = []
   \<and> fst (gzip_callback (fst (gelfAppender example_config log4js_levels ''box'' example_heap))
        None (replicate 8193 0) example_runtime) = None"
proof -
  let ?ap = "fst (gelfAppender example_config log4js_levels ''box'' example_heap)"
  have c: "calls (client example_runtime) = []"
    by (simp add: example_runtime_def gelfAppender_def createSocket_def Let_def split: prod.splits)
  have p: "ap_port ?ap = JNum 12201" "ap_host ?ap = JStr ''localhost''"
    by (simp_all add: eval_defs)
  show ?thesis
    using size_gate [of ?ap "replicate 8192 0" example_runtime]
      size_gate [of ?ap "replicate 8193 0" example_runtime]
    by (simp add: c p)
qed

text \<open>
  Claim C2, as stated, fails: of two calls of \<^verbatim>\<open>shutdown\<close> on a new appender, the second
  calls \<^verbatim>\<open>client.close\<close> again, and the closed socket raises.
\<close>

theorem shutdown_twice_counterexample:
  "fst (shutdown (Some 1) example_runtime) = None
   \<and> fst (shutdown (Some 2) (snd (shutdown (Some 1) example_runtime)))
       = Some ERR_SOCKET_DGRAM_NOT_RUNNING
   \<and> calls (client (snd (shutdown (Some 1) example_runtime))) = [Close (Some 1)]
   \<and> calls (client (snd (shutdown (Some 2) (snd (shutdown (Some 1) example_runtime)))))
       = [Close (Some 1), Close (Some 2)]"
  by (simp add: example_runtime_def gelfAppender_def createSocket_def shutdown_def
      dgram_close_def debug_def Let_def split: prod.splits)

text \<open>
  Claim C2, amended. Every call of \<^verbatim>\<open>shutdown\<close> calls \<^verbatim>\<open>client.close\<close> with its callback.
  On a running socket the call raises nothing and removes the \<^verbatim>\<open>exit\<close> listener; on a
  closed socket the error of the socket reaches the caller and the listener stays as it
  was.
\<close>

theorem shutdown_closes:
  "calls (client (snd (shutdown cb rt))) = calls (client rt) @ [Close cb]
   \<and> \<not> running (client (snd (shutdown cb rt)))
   \<and> (running (client rt) \<longrightarrow>
        fst (shutdown cb rt) = None \<and> \<not> exit_listener (snd (shutdown cb rt)))
   \<and> (\<not> running (client rt) \<longrightarrow>
        fst (shutdown cb rt) = Some ERR_SOCKET_DGRAM_NOT_RUNNING
      \<and> exit_listener (snd (shutdown cb rt)) = exit_listener rt)"
  by (simp add: shutdown_def dgram_close_def debug_def Let_def)

text \<open>The instance at two calls on a new appender.\<close>

theorem shutdown_closes_witness:
  "running (client example_runtime) \<and> exit_listener example_runtime
   \<and> calls (client (snd (shutdown (Some 1) example_runtime))) = [Close (Some 1)]
   \<and> fst (shutdown (Some 1) example_runtime) = None
   \<and> \<not> exit_listener (snd (shutdown (Some 1) example_runtime))
   \<and> \<not> running (client (snd (shutdown (Some 1) example_runtime)))
   \<and> fst (shutdown (Some 2) (snd (shutdown (Some 1) example_runtime)))
       = Some ERR_SOCKET_DGRAM_NOT_RUNNING"
proof -
  have c: "calls (client example_runtime) = []" "running (client example_runtime)"
      "exit_listener example_runtime"
    by (simp_all add: example_runtime_def gelfAppender_def createSocket_def Let_def split: prod.splits)
  show ?thesis
    using shutdown_closes [of "Some 1" example_runtime]
      shutdown_closes [of "Some 2" "snd (shutdown (Some 1) example_runtime)"]
    by (simp add: c)
qed

subsection \<open>Construction\<close>

text \<open>
  Claim C9. When \<^verbatim>\<open>facility\<close> is truthy and \<^verbatim>\<open>customFields\<close> is given,
  \<^verbatim>\<open>defaultCustomFields\<close> is the caller's object itself: no object is allocated, and the
  caller's object gets the property \<^verbatim>\<open>_facility\<close>; no other object changes.
\<close>

theorem facility_aliases_customFields:
  assumes "truthy (facility cfg)" and "customFields cfg = Some a"
  shows "defaultCustomFields (fst (gelfAppender cfg lv osh h)) = a
     \<and> cells (fst (snd (gelfAppender cfg lv osh h))) a = obj_set (cells h a) ''_facility'' (facility cfg)
     \<and> has_own (cells (fst (snd (gelfAppender cfg lv osh h))) a) ''_facility''
     \<and> get_own (cells (fst (snd (gelfAppender cfg lv osh h))) a) ''_facility'' = facility cfg
     \<and> fresh (fst (snd (gelfAppender cfg lv osh h))) = fresh h
     \<and> (\<forall>b. b \<noteq> a \<longrightarrow> cells (fst (snd (gelfAppender cfg lv osh h))) b = cells h b)"
  using assms
  by (simp add: gelfAppender_def heap_set_def Let_def get_own_obj_set has_own_obj_set)

text \<open>The instance at \<^verbatim>\<open>customFields: {_a:1, _id:99}\<close> and \<^verbatim>\<open>facility: 'nodejs-server'\<close>.\<close>

theorem facility_aliases_customFields_witness:
  "customFields (example_config\<lparr>facility := JStr ''nodejs-server''\<rparr>) = Some 0
   \<and> cells example_heap 0 = [(''_a'', JNum 1), (''_id'', JNum 99)]
   \<and> defaultCustomFields (fst (gelfAppender (example_config\<lparr>facility := JStr ''nodejs-server''\<rparr>)
         log4js_levels ''box'' example_heap)) = 0
   \<and> cells (fst (snd (gelfAppender (example_config\<lparr>facility := JStr ''nodejs-server''\<rparr>)
         log4js_levels ''box'' example_heap))) 0
       = [(''_a'', JNum 1), (''_id'', JNum 99), (''_facility'', JStr ''nodejs-server'')]"
proof -
  have 1: "truthy (facility (example_config\<lparr>facility := JStr ''nodejs-server''\<rparr>))" by simp
  have 2: "customFields (example_config\<lparr>facility := JStr ''nodejs-server''\<rparr>) = Some 0"
    by (simp add: example_config_def)
  have 3: "cells example_heap 0 = [(''_a'', JNum 1), (''_id'', JNum 99)]"
    by (simp add: example_heap_def)
  show ?thesis
    using facility_aliases_customFields [OF 1 2, of log4js_levels "''box''" example_heap]
    by (simp add: 2 3 obj_set.simps)
qed

subsection \<open>Round trip\<close>




end
